theory Spec2Isabelle
  imports Main "HOL-Library.Word" "HOL-Library.Char_ord" "HOL-Library.List_Lexorder"
begin

unbundle bit_operations_syntax

section \<open>The library functions the code hashes with\<close>

text \<open>
  Both source files hash with \<open>hashlib.md5()\<close> and encode with \<open>base64.b64encode\<close>. They
  are the Python standard library, not code of the repository; they are written out here
  after RFC 1321 and RFC 4648, so that every definition below computes. A Python \<open>bytes\<close>
  value is a list of 8-bit words.
\<close>

type_synonym byte = "8 word"
type_synonym bytes = "byte list"
type_synonym md5_state = "32 word \<times> 32 word \<times> 32 word \<times> 32 word"

definition md5_K :: "32 word list" where
  "md5_K = [0xd76aa478, 0xe8c7b756, 0x242070db, 0xc1bdceee, 0xf57c0faf, 0x4787c62a,
            0xa8304613, 0xfd469501, 0x698098d8, 0x8b44f7af, 0xffff5bb1, 0x895cd7be,
            0x6b901122, 0xfd987193, 0xa679438e, 0x49b40821, 0xf61e2562, 0xc040b340,
            0x265e5a51, 0xe9b6c7aa, 0xd62f105d, 0x02441453, 0xd8a1e681, 0xe7d3fbc8,
            0x21e1cde6, 0xc33707d6, 0xf4d50d87, 0x455a14ed, 0xa9e3e905, 0xfcefa3f8,
            0x676f02d9, 0x8d2a4c8a, 0xfffa3942, 0x8771f681, 0x6d9d6122, 0xfde5380c,
            0xa4beea44, 0x4bdecfa9, 0xf6bb4b60, 0xbebfbc70, 0x289b7ec6, 0xeaa127fa,
            0xd4ef3085, 0x04881d05, 0xd9d4d039, 0xe6db99e5, 0x1fa27cf8, 0xc4ac5665,
            0xf4292244, 0x432aff97, 0xab9423a7, 0xfc93a039, 0x655b59c3, 0x8f0ccc92,
            0xffeff47d, 0x85845dd1, 0x6fa87e4f, 0xfe2ce6e0, 0xa3014314, 0x4e0811a1,
            0xf7537e82, 0xbd3af235, 0x2ad7d2bb, 0xeb86d391]"

definition md5_shift :: "nat list" where
  "md5_shift = [7, 12, 17, 22, 7, 12, 17, 22, 7, 12, 17, 22, 7, 12, 17, 22,
                5, 9, 14, 20, 5, 9, 14, 20, 5, 9, 14, 20, 5, 9, 14, 20,
                4, 11, 16, 23, 4, 11, 16, 23, 4, 11, 16, 23, 4, 11, 16, 23,
                6, 10, 15, 21, 6, 10, 15, 21, 6, 10, 15, 21, 6, 10, 15, 21]"

definition rotl :: "nat \<Rightarrow> 32 word \<Rightarrow> 32 word" where
  "rotl s x = push_bit s x OR drop_bit (32 - s) x"

definition le_word :: "bytes \<Rightarrow> 32 word" where
  "le_word bs = foldr (\<lambda>b w. push_bit 8 w OR ucast b) bs 0"

definition word_le :: "32 word \<Rightarrow> bytes" where
  "word_le w = map (\<lambda>i. ucast (drop_bit (8 * i) w)) [0..<4]"

definition md5_step :: "32 word list \<Rightarrow> nat \<Rightarrow> md5_state \<Rightarrow> md5_state" where
  "md5_step M i st = (case st of (A, B, C, D) \<Rightarrow>
     (let (F, g) = (if i < 16 then ((B AND C) OR (NOT B AND D), i)
                    else if i < 32 then ((D AND B) OR (NOT D AND C), (5 * i + 1) mod 16)
                    else if i < 48 then (B XOR C XOR D, (3 * i + 5) mod 16)
                    else (C XOR (B OR NOT D), (7 * i) mod 16))
      in (D, B + rotl (md5_shift ! i) (F + A + md5_K ! i + M ! g), B, C)))"

definition words_of :: "bytes \<Rightarrow> 32 word list" where
  "words_of block = map (\<lambda>j. le_word (take 4 (drop (4 * j) block))) [0..<16]"

text \<open>One 64-byte block folded into the chaining value.\<close>

definition compress :: "md5_state \<Rightarrow> bytes \<Rightarrow> md5_state" where
  "compress st block = (case st of (a, b, c, d) \<Rightarrow>
     (case fold (md5_step (words_of block)) [0..<64] (a, b, c, d) of
        (A, B, C, D) \<Rightarrow> (a + A, b + B, c + C, d + D)))"

text \<open>Every full block of the buffer is compressed; what is left is shorter than a block.\<close>

function absorb :: "md5_state \<Rightarrow> bytes \<Rightarrow> md5_state \<times> bytes" where
  "absorb st bs = (if length bs < 64 then (st, bs)
                   else absorb (compress st (take 64 bs)) (drop 64 bs))"
  by pat_completeness auto
termination
  by (relation "measure (\<lambda>(st, bs). length bs)") auto

declare absorb.simps [simp del]

text \<open>
  The hash object \<open>hashlib.md5()\<close>: the chaining value, the bytes fed and not yet
  compressed, and the number of bytes fed so far. \<open>update\<close> is \<open>hash.update(data)\<close>,
  \<open>digest\<close> is \<open>hash.digest()\<close>, which pads a copy and leaves the object as it was.
\<close>

record md5_hash =
  chain :: md5_state
  pending :: bytes
  fed :: nat

definition md5_new :: md5_hash where
  "md5_new = \<lparr>chain = (0x67452301, 0xefcdab89, 0x98badcfe, 0x10325476),
              pending = [], fed = 0\<rparr>"

definition update :: "md5_hash \<Rightarrow> bytes \<Rightarrow> md5_hash" where
  "update h data = (case absorb (chain h) (pending h @ data) of
      (st, rest) \<Rightarrow> \<lparr>chain = st, pending = rest, fed = fed h + length data\<rparr>)"

definition md5_padding :: "nat \<Rightarrow> bytes" where
  "md5_padding n = 0x80 # replicate ((119 - n mod 64) mod 64) 0 @
       map (\<lambda>i. ucast (drop_bit (8 * i) (word_of_nat (8 * n) :: 64 word))) [0..<8]"

definition digest :: "md5_hash \<Rightarrow> bytes" where
  "digest h = (case absorb (chain h) (pending h @ md5_padding (fed h)) of
      ((a, b, c, d), rest) \<Rightarrow> word_le a @ word_le b @ word_le c @ word_le d)"

text \<open>The MD5 of a whole byte string, hashed at once: \<open>hashlib.md5(bs).digest()\<close>.\<close>

definition md5sum :: "bytes \<Rightarrow> bytes" where
  "md5sum bs = digest (update md5_new bs)"

text \<open>\<open>base64.b64encode(bs).decode()\<close>: the standard alphabet, padded with \<open>=\<close>.\<close>

definition b64_char :: "nat \<Rightarrow> char" where
  "b64_char n = ''ABCDEFGHIJKLMNOPQRSTUVWXYZabcdefghijklmnopqrstuvwxyz0123456789+/'' ! n"

fun b64encode :: "bytes \<Rightarrow> string" where
  "b64encode [] = []"
| "b64encode [a] = (let n = unat a * 65536
     in [b64_char (n div 262144), b64_char (n div 4096 mod 64), CHR ''='', CHR ''=''])"
| "b64encode [a, b] = (let n = unat a * 65536 + unat b * 256
     in [b64_char (n div 262144), b64_char (n div 4096 mod 64), b64_char (n div 64 mod 64),
         CHR ''=''])"
| "b64encode (a # b # c # rest) = (let n = unat a * 65536 + unat b * 256 + unat c
     in [b64_char (n div 262144), b64_char (n div 4096 mod 64), b64_char (n div 64 mod 64),
         b64_char (n mod 64)] @ b64encode rest)"

section \<open>Errors and file objects\<close>

text \<open>
  A Python exception is a value: every function that can raise returns \<open>error + 'a\<close>, with
  \<open>Inl\<close> the exception. \<open>Raised msg\<close> is any other \<open>Exception\<close> of a collaborator, with
  \<open>str(ex)\<close>. \<open>KeyboardInterrupt\<close> is not an \<open>Exception\<close> in Python: \<open>except Exception\<close> lets
  it through.
\<close>

datatype error =
    AssertionError string
  | ValueError string
  | TypeError string
  | IndexError
  | KeyError string
  | FileNotFoundError string
  | Raised string
  | KeyboardInterrupt

text \<open>
  A binary file object open for reading: its bytes and its position. \<open>read n\<close> is
  \<open>file.read(n)\<close>: at most \<open>n\<close> bytes from the position on, everything that is left when
  \<open>n\<close> is negative, and \<open>b""\<close> at the end of the file.
\<close>

record file_obj =
  content :: bytes
  pos :: nat

definition read :: "int \<Rightarrow> file_obj \<Rightarrow> bytes \<times> file_obj" where
  "read n f =
     (let rest = drop (pos f) (content f);
          chunk = (if n < 0 then rest else take (nat n) rest)
      in (chunk, f\<lparr>pos := pos f + length chunk\<rparr>))"

definition seek :: "nat \<Rightarrow> file_obj \<Rightarrow> file_obj" where
  "seek offset f = f\<lparr>pos := offset\<rparr>"

text \<open>
  The chunks that \<open>iter(lambda: file.read(n), b"")\<close> yields: the reads up to the first
  empty one.
\<close>

function read_chunks :: "int \<Rightarrow> file_obj \<Rightarrow> bytes list" where
  "read_chunks n f =
     (case read n f of (chunk, f') \<Rightarrow>
        if chunk = [] then [] else chunk # read_chunks n f')"
  by pat_completeness auto
termination
  by (relation "measure (\<lambda>(n, f). length (content f) - pos f)")
     (auto simp: read_def Let_def split: if_splits)

declare read_chunks.simps [simp del]

section \<open>The content digest (fs\_sync.py, \<open>_generate_md5_token\<close>)\<close>

text \<open>
  The loop \<open>for chunk in iter(lambda: file.read(n), b""): hash_md5.update(chunk)\<close>, with the
  block size \<open>n\<close> a parameter. The source also builds \<open>hash_md5_chunk\<close>, a hash of the
  chunk alone, and never reads it; it is left out.
\<close>

function hash_blocks :: "int \<Rightarrow> file_obj \<Rightarrow> md5_hash \<Rightarrow> md5_hash \<times> file_obj" where
  "hash_blocks n f h =
     (case read n f of (chunk, f') \<Rightarrow>
        if chunk = [] then (h, f') else hash_blocks n f' (update h chunk))"
  by pat_completeness auto
termination
  by (relation "measure (\<lambda>(n, f, h). length (content f) - pos f)")
     (auto simp: read_def Let_def split: if_splits)

declare hash_blocks.simps [simp del]

text \<open>
  The file system \<open>fs\<close> maps a path to the bytes stored there; \<open>fs.open\<close> of a path that
  is not there raises. The block size of the source is 4096.
\<close>

definition generate_md5_token :: "string \<Rightarrow> (string \<Rightarrow> bytes option) \<Rightarrow> error + string" where
  "generate_md5_token path fs =
     (case fs path of
        None \<Rightarrow> Inl (FileNotFoundError path)
      | Some data \<Rightarrow>
          (case hash_blocks 4096 \<lparr>content = data, pos = 0\<rparr> md5_new of
             (hash_md5, file) \<Rightarrow> Inr (b64encode (digest hash_md5))))"

section \<open>The upload headers (fusion\_filesystem.py, \<open>_construct_headers\<close>)\<close>

text \<open>
  A header dictionary is a map from names to values. The loop of \<open>_construct_headers\<close>
  reads a chunk, feeds it to the one running hash \<open>hash_md5\<close>, copies \<open>headers_chunks\<close>,
  sets the copy's \<open>Digest\<close> to the digest of the running hash and appends the copy. Here too
  the per-chunk hash \<open>hash_md5_chunk\<close> is built and never read.
\<close>

type_synonym dict = "string \<rightharpoonup> string"

function header_loop ::
  "int \<Rightarrow> file_obj \<Rightarrow> md5_hash \<Rightarrow> dict \<Rightarrow> dict list \<Rightarrow> dict list \<times> md5_hash \<times> file_obj" where
  "header_loop chunk_size f hash_md5 headers_chunks headers_chunk_lst =
     (case read chunk_size f of (chunk, f') \<Rightarrow>
        if chunk = [] then (headers_chunk_lst, hash_md5, f')
        else (let hash_md5' = update hash_md5 chunk;
                  headers_chunks' =
                    headers_chunks(''Digest'' \<mapsto> ''md5='' @ b64encode (digest hash_md5'))
              in header_loop chunk_size f' hash_md5' headers_chunks'
                   (headers_chunk_lst @ [headers_chunks'])))"
  by pat_completeness auto
termination
  by (relation "measure (\<lambda>(n, f, h, d, l). length (content f) - pos f)")
     (auto simp: read_def Let_def split: if_splits)

declare header_loop.simps [simp del]

text \<open>
  \<open>_construct_headers(file_local, dt_iso, url, operation_id=None, chunk_size=5 * 2 ** 20)\<close>
  returns \<open>headers\<close> and \<open>headers_chunk_lst\<close> and rewinds the file. It reads neither \<open>url\<close>
  nor \<open>operation_id\<close>.
\<close>

definition construct_headers ::
  "file_obj \<Rightarrow> string \<Rightarrow> 'u \<Rightarrow> 'o \<Rightarrow> int \<Rightarrow> (dict \<times> dict list) \<times> file_obj" where
  "construct_headers file_local dt_iso url operation_id chunk_size =
     (let headers = [''Content-Type'' \<mapsto> ''application/octet-stream'',
                     ''x-jpmc-distribution-created-date'' \<mapsto> dt_iso,
                     ''x-jpmc-distribution-from-date'' \<mapsto> dt_iso,
                     ''x-jpmc-distribution-to-date'' \<mapsto> dt_iso,
                     ''Digest'' \<mapsto> ''''];
          headers_chunks = [''Content-Type'' \<mapsto> ''application/octet-stream'',
                            ''Digest'' \<mapsto> '''']
      in case header_loop chunk_size file_local md5_new headers_chunks [] of
           (headers_chunk_lst, hash_md5, f) \<Rightarrow>
             ((headers(''Digest'' \<mapsto> ''md5='' @ b64encode (digest hash_md5)),
               headers_chunk_lst), seek 0 f))"

section \<open>The upload of one file (fusion\_filesystem.py, \<open>_put_file\<close>)\<close>

text \<open>
  What a call of an \<open>async def\<close> function returns: a coroutine, which can be awaited and
  then gives its result or raises, or, when the body of the function has a \<open>yield\<close>, an
  async generator, which can be iterated and cannot be awaited.

  \<open>asyncio.gather(*aws)\<close> wraps each argument in a future before it runs any of them, and
  raises a \<open>TypeError\<close> for an argument that is no future, no coroutine and no awaitable.
\<close>

datatype 'a awaitable = Coroutine "error + 'a" | AsyncGenerator "error + 'a list"

fun gather :: "'a awaitable list \<Rightarrow> error + 'a list" where
  "gather [] = Inr []"
| "gather (Coroutine r # aws) =
     (case gather aws of
        Inl e \<Rightarrow> Inl e
      | Inr rs \<Rightarrow> (case r of Inl e \<Rightarrow> Inl e | Inr x \<Rightarrow> Inr (x # rs)))"
| "gather (AsyncGenerator g # aws) =
     Inl (TypeError ''An asyncio.Future, a coroutine or an awaitable is required'')"

text \<open>
  A request of the session: the verb, the address, the headers when there are any, and the
  body. A part is what \<open>put_data\<close> yields for one chunk, \<open>meth(url=url, data=chunk, **kw)\<close>: the
  address, the chunk and its headers.
\<close>

type_synonym part = "string \<times> bytes \<times> dict"

datatype payload = NoData | Data bytes | Gathered "part list"

record request =
  req_verb :: string
  req_url :: string
  req_headers :: "dict option"
  req_data :: payload

text \<open>
  The session and the methods of the superclass that \<open>_put_file\<close> calls, for a world \<open>'w\<close> and
  responses \<open>'r\<close>: \<open>session_request\<close> sends a request and gives the response;
  \<open>raise_not_found_for_status\<close> gives the exception that
  \<open>self._raise_not_found_for_status(resp, rpath)\<close> raises, if it raises; \<open>operation_id_of\<close> is
  the value of \<open>resp.json()["operationId"]\<close>, or the exception of that expression.
\<close>

record ('w, 'r) session =
  session_request :: "request \<Rightarrow> 'w \<Rightarrow> 'r \<times> 'w"
  raise_not_found_for_status :: "'r \<Rightarrow> string \<Rightarrow> error option"
  operation_id_of :: "'r \<Rightarrow> error + string"

text \<open>
  \<open>method.lower()\<close> and \<open>repr(method)\<close> for strings of ASCII. \<open>repr\<close> puts the string between
  apostrophes, or between double quotes when it holds an apostrophe and no double quote,
  and escapes the backslash, the quote it uses and the characters that do not print.
\<close>

definition lower :: "string \<Rightarrow> string" where
  "lower s = map (\<lambda>c. if CHR ''A'' \<le> c \<and> c \<le> CHR ''Z''
                         then char_of (of_char c + (32 :: nat)) else c) s"

definition hex_digit :: "nat \<Rightarrow> char" where
  "hex_digit n = ''0123456789abcdef'' ! (n mod 16)"

definition repr_char :: "char \<Rightarrow> char \<Rightarrow> string" where
  "repr_char q c =
     (if c = q \<or> c = CHR 0x5C then [CHR 0x5C, c]
      else if c = CHR 0x09 then [CHR 0x5C, CHR ''t'']
      else if c = CHR 0x0A then [CHR 0x5C, CHR ''n'']
      else if c = CHR 0x0D then [CHR 0x5C, CHR ''r'']
      else if (of_char c :: nat) < 32 \<or> (of_char c :: nat) = 127
      then [CHR 0x5C, CHR ''x'', hex_digit (of_char c div 16), hex_digit (of_char c)]
      else [c])"

definition repr :: "string \<Rightarrow> string" where
  "repr s = (let q = (if CHR 0x27 \<in> set s \<and> CHR 0x22 \<notin> set s then CHR 0x22 else CHR 0x27)
             in [q] @ concat (map (repr_char q) s) @ [q])"

text \<open>
  \<open>put_data\<close> has a \<open>yield\<close> in its body, so \<open>put_data()\<close> is an async generator. Iterated, it
  would read the file in chunks and yield a part for each; the counter \<open>i\<close> stays 0, so every
  part has the number 1 and the headers \<open>chunk_headers_lst[0]\<close>, which is an \<open>IndexError\<close> when
  the list is empty. With no chunk size it yields nothing.
\<close>

definition put_data ::
  "file_obj \<Rightarrow> string \<Rightarrow> int option \<Rightarrow> string \<Rightarrow> dict list \<Rightarrow> part awaitable" where
  "put_data lpath rpath chunk_size operation_id chunk_headers_lst =
     AsyncGenerator
       (case chunk_size of
          None \<Rightarrow> Inr []
        | Some n \<Rightarrow>
            if n = 0 then Inr []
            else (case read_chunks n lpath of
                    [] \<Rightarrow> Inr []
                  | chunk # chunks \<Rightarrow>
                      if chunk_headers_lst = [] then Inl IndexError
                      else Inr (map (\<lambda>c. (rpath @ ''/operations/upload?operationId=''
                                              @ operation_id @ ''&partNumber=1'',
                                            c, chunk_headers_lst ! 0))
                                  (chunk # chunks))))"

text \<open>
  \<open>_put_file(lpath, rpath, chunk_size, callback, method, multipart, headers=...,
  chunk_headers_lst=...)\<close> with \<open>lpath\<close> a file object. Without \<open>multipart\<close> the whole file is
  the body of one request. With it, the upload is opened by a \<open>post\<close>, the operation id is
  read from the response, \<open>put_data()\<close> is gathered, and the upload is closed by a \<open>post\<close> with
  the headers of the whole file. The result is the exception, or nothing, with the file and
  the world.
\<close>

definition put_file ::
  "('w, 'r) session \<Rightarrow> file_obj \<Rightarrow> string \<Rightarrow> int option \<Rightarrow> string \<Rightarrow> bool \<Rightarrow> dict \<Rightarrow> dict list
     \<Rightarrow> 'w \<Rightarrow> (error + unit) \<times> file_obj \<times> 'w" where
  "put_file s lpath rpath chunk_size method multipart headers chunk_headers_lst w =
     (let method' = lower method
      in if method' \<notin> set [''post'', ''put''] then
           (Inl (ValueError (''method has to be either 'post' or 'put', not: ''
                             @ repr method')), lpath, w)
         else if \<not> multipart then
           (case read (- 1) lpath of (body, lpath') \<Rightarrow>
              (case session_request s
                      \<lparr>req_verb = method', req_url = rpath, req_headers = Some headers,
                       req_data = Data body\<rparr> w of
                 (resp, w1) \<Rightarrow>
                   (case raise_not_found_for_status s resp rpath of
                      Some e \<Rightarrow> (Inl e, lpath', w1)
                    | None \<Rightarrow> (Inr (), lpath', w1))))
         else
           (case session_request s
                   \<lparr>req_verb = ''post'', req_url = rpath @ ''/operations?operationType=upload'',
                    req_headers = None, req_data = NoData\<rparr> w of
              (resp, w1) \<Rightarrow>
                (case raise_not_found_for_status s resp rpath of
                   Some e \<Rightarrow> (Inl e, lpath, w1)
                 | None \<Rightarrow>
                     (case operation_id_of s resp of
                        Inl e \<Rightarrow> (Inl e, lpath, w1)
                      | Inr operation_id \<Rightarrow>
                          (case gather [put_data lpath rpath chunk_size operation_id
                                          chunk_headers_lst] of
                             Inl e \<Rightarrow> (Inl e, lpath, w1)
                           | Inr parts \<Rightarrow>
                               (case session_request s
                                       \<lparr>req_verb = ''post'',
                                        req_url = rpath
                                          @ ''/operations?operationType=upload&operationId=''
                                          @ operation_id,
                                        req_headers = Some headers,
                                        req_data = Gathered parts\<rparr> w1 of
                                  (resp2, w2) \<Rightarrow>
                                    (case raise_not_found_for_status s resp2 rpath of
                                       Some e \<Rightarrow> (Inl e, lpath, w2)
                                     | None \<Rightarrow> (Inr (), lpath, w2))))))))"

section \<open>Inventories and the reconciliation join (fs\_sync.py)\<close>

text \<open>
  The inventories are pandas data frames; the columns of a frame with rows are of object
  dtype. A cell holds a Python \<open>str\<close> or
  is missing (\<open>None\<close>/\<open>NaN\<close>); a missing cell is \<open>None\<close> here. The local inventory has
  the columns \<open>path\<close>, \<open>url\<close>, \<open>md5\<close>; the remote one has \<open>size\<close> as well, a column that
  \<open>merge\<close> carries along and that no code of \<open>fs_sync.py\<close> reads after the join, so it is
  left out. The logical key the two inventories are joined on is the column \<open>url\<close>.
\<close>

type_synonym cell = "string option"

record row =
  path :: cell
  url :: cell
  md5 :: cell

text \<open>
  A row of \<open>df_local.merge(df_fusion, on="url", suffixes=("_local", "_fusion"))\<close>: the key
  column keeps its name, the columns both frames have get the suffixes.
\<close>

record join_row =
  path_local :: cell
  url :: cell
  md5_local :: cell
  path_fusion :: cell
  md5_fusion :: cell

definition left_only :: "row \<Rightarrow> join_row" where
  "left_only l = \<lparr>path_local = row.path l, url = row.url l, md5_local = row.md5 l,
                   path_fusion = None, md5_fusion = None\<rparr>"

definition right_only :: "row \<Rightarrow> join_row" where
  "right_only r = \<lparr>path_local = None, url = row.url r, md5_local = None,
                    path_fusion = row.path r, md5_fusion = row.md5 r\<rparr>"

definition both :: "row \<Rightarrow> row \<Rightarrow> join_row" where
  "both l r = \<lparr>path_local = row.path l, url = row.url l, md5_local = row.md5 l,
                path_fusion = row.path r, md5_fusion = row.md5 r\<rparr>"

text \<open>
  \<open>merge(how="left")\<close>: every row of the left frame, in its order, once for each row of
  the right frame with the same key, and once with the right columns missing when there is
  none. pandas matches a missing key with a missing key, as equality of cells does here.
\<close>

definition merge_left :: "row list \<Rightarrow> row list \<Rightarrow> join_row list" where
  "merge_left df_local df_fusion =
     concat (map (\<lambda>l. case filter (\<lambda>r. row.url r = row.url l) df_fusion of
                          [] \<Rightarrow> [left_only l]
                        | m # ms \<Rightarrow> map (both l) (m # ms)) df_local)"

text \<open>\<open>merge(how="right")\<close>: the same with the right frame driving.\<close>

definition merge_right :: "row list \<Rightarrow> row list \<Rightarrow> join_row list" where
  "merge_right df_local df_fusion =
     concat (map (\<lambda>r. case filter (\<lambda>l. row.url l = row.url r) df_local of
                          [] \<Rightarrow> [right_only r]
                        | m # ms \<Rightarrow> map (\<lambda>l. both l r) (m # ms)) df_fusion)"

text \<open>
  The elementwise \<open>!=\<close> of two object columns: a missing cell on either side compares
  unequal to everything, also to another missing cell.
\<close>

definition ne :: "cell \<Rightarrow> cell \<Rightarrow> bool" where
  "ne a b = (case a of None \<Rightarrow> True
             | Some x \<Rightarrow> (case b of None \<Rightarrow> True | Some y \<Rightarrow> x \<noteq> y))"

text \<open>
  The frame \<open>join_df\<close> of \<open>_synchronize\<close> after the filter
  \<open>join_df[join_df["md5_local"] != join_df["md5_fusion"]]\<close>, for each direction: the
  transfer plan, one row for each task.
\<close>

definition upload_plan :: "row list \<Rightarrow> row list \<Rightarrow> join_row list" where
  "upload_plan df_local df_fusion =
     filter (\<lambda>j. ne (md5_local j) (md5_fusion j)) (merge_left df_local df_fusion)"

definition download_plan :: "row list \<Rightarrow> row list \<Rightarrow> join_row list" where
  "download_plan df_local df_fusion =
     filter (\<lambda>j. ne (md5_local j) (md5_fusion j)) (merge_right df_local df_fusion)"

section \<open>Data frames with their labels and their dtype\<close>

text \<open>
  A data frame with the columns \<open>path\<close>, \<open>url\<close> and \<open>md5\<close> is the list of its rows, each with
  its index label, and the dtype of its columns. The dtype shows on a frame without rows
  only: \<open>pd.DataFrame([[], [], []]).T\<close> has columns of dtype \<open>float64\<close>, while
  \<open>pd.DataFrame(columns=[...])\<close> and a frame whose rows have all been filtered away have
  columns of dtype \<open>object\<close>.
\<close>

datatype dtype = Float64 | Object

record frame =
  frame_rows :: "(nat \<times> row) list"
  col_dtype :: dtype

definition dtype_name :: "dtype \<Rightarrow> string" where
  "dtype_name d = (case d of Float64 \<Rightarrow> ''float64'' | Object \<Rightarrow> ''object'')"

text \<open>
  Before it joins, \<open>merge\<close> compares the dtypes of the two key columns. The check is skipped
  when one frame has rows and the other has none; with rows in both, the keys are strings
  on both sides; with rows in neither, a \<open>float64\<close> key column against an \<open>object\<close> one is
  a \<open>ValueError\<close>. The text of the message is that of pandas 2.0.
\<close>

definition merge_keys_error :: "frame \<Rightarrow> frame \<Rightarrow> error option" where
  "merge_keys_error left right =
     (if frame_rows left = [] \<and> frame_rows right = [] \<and> col_dtype left \<noteq> col_dtype right
      then Some (ValueError (''You are trying to merge on '' @ dtype_name (col_dtype left)
                             @ '' and '' @ dtype_name (col_dtype right)
                             @ '' columns. If you wish to proceed you should use pd.concat''))
      else None)"

section \<open>The collaborators\<close>

text \<open>
  The two file systems and the helpers of \<open>fusion.utils\<close> are inputs of \<open>fs_sync.py\<close>. What
  they do to the disk and to the server is a change of a world \<open>'w\<close> that every call
  threads through; a call that can raise returns the exception as a value.

  \<open>fs_local\<close>: \<open>local_exists\<close> is \<open>fs_local.exists(p)\<close>; \<open>local_mkdir\<close> is
  \<open>fs_local.mkdir(d, exist_ok=True, create_parents=True)\<close> and \<open>local_mkdir_parent\<close> the same
  call on \<open>Path(p).parent\<close>, both with the message of the exception when they raise;
  \<open>local_find\<close> is \<open>fs_local.find(d)\<close>; \<open>local_open\<close> gives the bytes that
  \<open>fs_local.open(p, "rb")\<close> reads.
\<close>

record 'w local_fs =
  local_exists :: "cell \<Rightarrow> 'w \<Rightarrow> bool"
  local_mkdir :: "string \<Rightarrow> 'w \<Rightarrow> string option \<times> 'w"
  local_mkdir_parent :: "cell \<Rightarrow> 'w \<Rightarrow> string option \<times> 'w"
  local_find :: "string \<Rightarrow> 'w \<Rightarrow> string list"
  local_open :: "'w \<Rightarrow> string \<Rightarrow> bytes option"

text \<open>
  \<open>fs_fusion\<close>: \<open>fusion_get\<close> is \<open>fs_fusion.get(url, p, chunk_size=DEFAULT_CHUNK_SIZE)\<close>, with
  the message of the exception when it raises. \<open>product_resources\<close> is, for a product, the
  list \<open>[r["identifier"] for r in res["resources"]]\<close> of the document that
  \<open>json.loads(fs_fusion.cat("common/products/" + product).decode())\<close> gives, or the
  exception that reading it raises. \<open>fusion_state\<close> is the remote inventory that
  \<open>_get_fusion_df\<close> builds from the change feed of the datasets.
\<close>

record 'w fusion_fs =
  fusion_get :: "cell \<Rightarrow> cell \<Rightarrow> 'w \<Rightarrow> string option \<times> 'w"
  product_resources :: "string \<Rightarrow> 'w \<Rightarrow> (error + string list) \<times> 'w"
  fusion_state :: "string list \<Rightarrow> string \<Rightarrow> bool \<Rightarrow> string option \<Rightarrow> 'w \<Rightarrow> (error + frame) \<times> 'w"

text \<open>
  An outcome is the triple \<open>(succeeded, path, error message)\<close> that a transfer returns.
\<close>

type_synonym outcome = "bool \<times> cell \<times> cell"

text \<open>
  The helpers imported from \<open>fusion.utils\<close>, which is not among the sources:
  \<open>validate_file_names\<close> gives one flag for each path, \<open>path_to_url\<close> the remote key of a local
  path, \<open>upload_file\<close> what the upload of one row of the plan returns.
  \<open>join_relpath d i\<close> is \<open>os.path.join(d, relpath(i, d)).replace("\\", "/")\<close>.
  \<open>argsort ks\<close> is numpy's \<open>ks.argsort(kind="quicksort")\<close>, with which pandas sorts: the
  positions of \<open>ks\<close> in an order that makes the keys ascend. Quicksort is not stable, so
  the order it gives to equal keys is the library's.
\<close>

record 'w utils =
  validate_file_names :: "string list \<Rightarrow> 'w \<Rightarrow> bool list"
  path_to_url :: "string \<Rightarrow> string"
  join_relpath :: "string \<Rightarrow> string \<Rightarrow> string"
  upload_file :: "join_row \<Rightarrow> 'w \<Rightarrow> outcome \<times> 'w"
  argsort :: "string list \<Rightarrow> nat list"

section \<open>The transfers (fs\_sync.py, \<open>_download\<close> and \<open>_upload\<close>)\<close>

text \<open>
  \<open>_download_files(row)\<close>: the directory is made when the target does not exist, and an
  exception of \<open>mkdir\<close> is logged and dropped; then the remote object is fetched, and an
  exception of \<open>get\<close> becomes the outcome \<open>(False, p_path, str(ex))\<close>.
\<close>

definition download_files ::
  "'w fusion_fs \<Rightarrow> 'w local_fs \<Rightarrow> join_row \<Rightarrow> 'w \<Rightarrow> outcome \<times> 'w" where
  "download_files fs_fusion fs_local row w =
     (let p_path = path_fusion row;
          w1 = (if \<not> local_exists fs_local p_path w
                then snd (local_mkdir_parent fs_local p_path w) else w)
      in case fusion_get fs_fusion (join_row.url row) p_path w1 of
           (None, w2) \<Rightarrow> ((True, p_path, None), w2)
         | (Some msg, w2) \<Rightarrow> ((False, p_path, Some msg), w2))"

text \<open>
  \<open>_download\<close> runs \<open>_download_files\<close> on every row of the plan and returns the outcomes in
  the order of the rows, through \<open>joblib.Parallel\<close> when there is more than one row and in a
  list comprehension otherwise. Here the rows are served one after the other.
\<close>

fun download ::
  "'w fusion_fs \<Rightarrow> 'w local_fs \<Rightarrow> join_row list \<Rightarrow> 'w \<Rightarrow> outcome list \<times> 'w" where
  "download fs_fusion fs_local [] w = ([], w)"
| "download fs_fusion fs_local (row # df) w =
     (case download_files fs_fusion fs_local row w of (r, w1) \<Rightarrow>
        (case download fs_fusion fs_local df w1 of (res, w2) \<Rightarrow> (r # res, w2)))"

text \<open>
  Modelled from the spec: \<open>upload_files\<close> of \<open>fusion.utils\<close>, which \<open>_upload\<close> calls and which is
  not among the sources. The spec has the executor return a sequence of outcomes,
  collected per task: one outcome for each row of the plan.
\<close>

fun upload_files :: "'w utils \<Rightarrow> join_row list \<Rightarrow> 'w \<Rightarrow> outcome list \<times> 'w" where
  "upload_files ut [] w = ([], w)"
| "upload_files ut (row # df) w =
     (case upload_file ut row w of (r, w1) \<Rightarrow>
        (case upload_files ut df w1 of (res, w2) \<Rightarrow> (r # res, w2)))"

definition upload :: "'w utils \<Rightarrow> join_row list \<Rightarrow> 'w \<Rightarrow> outcome list \<times> 'w" where
  "upload ut df w = upload_files ut df w"

section \<open>Reconciliation with its transfers (fs\_sync.py, \<open>_synchronize\<close>)\<close>

text \<open>
  In both directions the left frame of the merge is \<open>df_local\<close>. An exception of the merge
  leaves \<open>_synchronize\<close> before any transfer.
\<close>

definition synchronize ::
  "'w fusion_fs \<Rightarrow> 'w local_fs \<Rightarrow> 'w utils \<Rightarrow> frame \<Rightarrow> frame \<Rightarrow> string \<Rightarrow> 'w
     \<Rightarrow> (error + outcome list) \<times> 'w" where
  "synchronize fs_fusion fs_local ut df_local df_fusion direction w =
     (if direction = ''upload'' then
        (case merge_keys_error df_local df_fusion of
           Some e \<Rightarrow> (Inl e, w)
         | None \<Rightarrow>
             (case upload ut (upload_plan (map snd (frame_rows df_local))
                                (map snd (frame_rows df_fusion))) w of
                (res, w') \<Rightarrow> (Inr res, w')))
      else if direction = ''download'' then
        (case merge_keys_error df_local df_fusion of
           Some e \<Rightarrow> (Inl e, w)
         | None \<Rightarrow>
             (case download fs_fusion fs_local
                     (download_plan (map snd (frame_rows df_local))
                        (map snd (frame_rows df_fusion))) w of
                (res, w') \<Rightarrow> (Inr res, w')))
      else (Inl (ValueError ''Unknown direction of operation.''), w))"

section \<open>The local scan (fs\_sync.py, \<open>_get_local_state\<close>)\<close>

text \<open>
  \<open>find_str s sub\<close> is \<open>s.find(sub)\<close>: the first index at which \<open>sub\<close> starts in \<open>s\<close>, and
  \<open>-1\<close> when it starts nowhere. \<open>slice_from k s\<close> is \<open>s[k:]\<close>, where a negative \<open>k\<close> counts
  from the end. \<open>last_segment s\<close> is \<open>s.split("/")[-1]\<close>.
\<close>

fun find_str :: "string \<Rightarrow> string \<Rightarrow> int" where
  "find_str [] sub = (if sub = [] then 0 else - 1)"
| "find_str (c # cs) sub =
     (if take (length sub) (c # cs) = sub then 0
      else (let k = find_str cs sub in if k < 0 then - 1 else k + 1))"

definition slice_from :: "int \<Rightarrow> string \<Rightarrow> string" where
  "slice_from k s = (if 0 \<le> k then drop (nat k) s else drop (length s - nat (- k)) s)"

definition last_segment :: "string \<Rightarrow> string" where
  "last_segment s = rev (takeWhile (\<lambda>c. c \<noteq> CHR ''/'') (rev s))"

text \<open>
  The loop over the directories. In each round \<open>local_files\<close> is assigned the files found
  in the directory, the relative paths are validated, \<open>local_files\<close> is extended by the
  files whose flag is set, and \<open>local_files_rel\<close> is extended by the path of every file
  that \<open>local_files\<close> then holds. \<open>mkdir\<close> is not in a \<open>try\<close> here: its exception ends
  the scan.
\<close>

fun scan_dirs ::
  "'w local_fs \<Rightarrow> 'w utils \<Rightarrow> string list \<Rightarrow> string list \<Rightarrow> string list \<Rightarrow> 'w
     \<Rightarrow> (error + string list \<times> string list) \<times> 'w" where
  "scan_dirs fs_local ut [] local_files local_files_rel w =
     (Inr (local_files, local_files_rel), w)"
| "scan_dirs fs_local ut (local_dir # local_dirs) local_files local_files_rel w =
     (case (if \<not> local_exists fs_local (Some local_dir) w
            then local_mkdir fs_local local_dir w else (None, w)) of
        (Some msg, w1) \<Rightarrow> (Inl (Raised msg), w1)
      | (None, w1) \<Rightarrow>
          (let found = local_find fs_local local_dir w1;
               local_rel_path = map (\<lambda>i. slice_from (find_str i local_dir) i) found;
               local_file_validation = validate_file_names ut local_rel_path w1;
               local_files' = found @ map snd (filter fst (zip local_file_validation found));
               local_files_rel' =
                 local_files_rel @ map (join_relpath ut local_dir) local_files'
           in scan_dirs fs_local ut local_dirs local_files' local_files_rel' w1))"

text \<open>
  \<open>[_generate_md5_token(x, fs_local) for x in local_files]\<close>: the first file that cannot
  be opened ends the comprehension with its exception.
\<close>

fun md5_tokens :: "string list \<Rightarrow> (string \<Rightarrow> bytes option) \<Rightarrow> error + string list" where
  "md5_tokens [] fs = Inr []"
| "md5_tokens (x # xs) fs =
     (case generate_md5_token x fs of
        Inl e \<Rightarrow> Inl e
      | Inr t \<Rightarrow> (case md5_tokens xs fs of Inl e \<Rightarrow> Inl e | Inr ts \<Rightarrow> Inr (t # ts)))"

text \<open>
  \<open>pd.DataFrame([a, b, c]).T\<close> has as many rows as the longest of the three lists,
  labelled from 0, and a missing value where a list is shorter. Its columns are of dtype
  \<open>object\<close> when it has rows and of dtype \<open>float64\<close> when it has none.
\<close>

definition cell_at :: "string list \<Rightarrow> nat \<Rightarrow> cell" where
  "cell_at xs i = (if i < length xs then Some (xs ! i) else None)"

definition data_frame :: "string list \<Rightarrow> string list \<Rightarrow> string list \<Rightarrow> frame" where
  "data_frame a b c =
     (let n = max (length a) (max (length b) (length c))
      in \<lparr>frame_rows =
            map (\<lambda>i. (i, \<lparr>path = cell_at a i, url = cell_at b i, md5 = cell_at c i\<rparr>)) [0..<n],
          col_dtype = (if n = 0 then Float64 else Object)\<rparr>)"

text \<open>
  \<open>sort_values("path")\<close>: the rows with a path in the order that the sorter gives to their
  paths, then the rows without a path. \<open>drop_duplicates()\<close> keeps the first of the rows that
  agree in all three columns, whatever their labels. Neither changes the dtype.
\<close>

definition sort_values :: "(string list \<Rightarrow> nat list) \<Rightarrow> (nat \<times> row) list \<Rightarrow> (nat \<times> row) list" where
  "sort_values sorter rows =
     (let non_nans = filter (\<lambda>r. row.path (snd r) \<noteq> None) rows;
          nans = filter (\<lambda>r. row.path (snd r) = None) rows;
          keys = List.map_filter (\<lambda>r. row.path (snd r)) rows;
          indexer = filter (\<lambda>i. i < length non_nans) (sorter keys)
      in map (\<lambda>i. non_nans ! i) indexer @ nans)"

definition drop_duplicates :: "(nat \<times> row) list \<Rightarrow> (nat \<times> row) list" where
  "drop_duplicates rows =
     foldl (\<lambda>acc r. if snd r \<in> snd ` set acc then acc else acc @ [r]) [] rows"

definition get_local_state ::
  "'w local_fs \<Rightarrow> 'w utils \<Rightarrow> string list \<Rightarrow> string \<Rightarrow> string option \<Rightarrow> 'w
     \<Rightarrow> (error + frame) \<times> 'w" where
  "get_local_state fs_local ut datasets catalog dataset_format w =
     (let local_dirs = (if length datasets > 0 then map (\<lambda>i. catalog @ ''/'' @ i) datasets
                        else [catalog])
      in case scan_dirs fs_local ut local_dirs [] [] w of
           (Inl e, w1) \<Rightarrow> (Inl e, w1)
         | (Inr (local_files, local_files_rel), w1) \<Rightarrow>
             (case md5_tokens local_files (local_open fs_local w1) of
                Inl e \<Rightarrow> (Inl e, w1)
              | Inr local_md5 \<Rightarrow>
                  (let local_url_eqiv = map (path_to_url ut) local_files;
                       df_local = data_frame local_files_rel local_url_eqiv local_md5;
                       df_local' =
                         (if dataset_format \<noteq> None \<and> dataset_format \<noteq> Some []
                             \<and> length (frame_rows df_local) > 0
                          then df_local\<lparr>frame_rows :=
                                 filter (\<lambda>r. map_option last_segment (row.url (snd r))
                                               = dataset_format) (frame_rows df_local)\<rparr>
                          else df_local)
                   in (Inr (df_local'\<lparr>frame_rows :=
                              drop_duplicates (sort_values (argsort ut)
                                                 (frame_rows df_local'))\<rparr>), w1))))"

section \<open>The synchronisation loop (fs\_sync.py, \<open>fsync\<close>)\<close>

text \<open>
  Python lists are objects: the argument \<open>datasets\<close> of \<open>fsync\<close> is a reference to a list
  that the caller still holds. The heap is the list of the list objects, a reference is
  an index into it, and \<open>alloc\<close> makes a new object. \<open>None\<close> for an argument is Python's
  \<open>None\<close>.
\<close>

type_synonym heap = "string list list"
type_synonym ref = nat

definition alloc :: "string list \<Rightarrow> heap \<Rightarrow> ref \<times> heap" where
  "alloc xs h = (length h, h @ [xs])"

text \<open>
  The loop \<open>for product in products: ...; datasets += [...]\<close>. \<open>+=\<close> on a list extends the
  object in place.
\<close>

fun expand_products ::
  "'w fusion_fs \<Rightarrow> string list \<Rightarrow> ref \<Rightarrow> heap \<Rightarrow> 'w \<Rightarrow> (error + unit) \<times> heap \<times> 'w" where
  "expand_products fs_fusion [] datasets h w = (Inr (), h, w)"
| "expand_products fs_fusion (product # products) datasets h w =
     (case product_resources fs_fusion product w of
        (Inl e, w1) \<Rightarrow> (Inl e, h, w1)
      | (Inr ids, w1) \<Rightarrow>
          expand_products fs_fusion products datasets (h[datasets := h ! datasets @ ids]) w1)"

text \<open>
  What \<open>fsync\<close> does before its loop, from the defaults of \<open>catalog\<close>, \<open>datasets\<close> and
  \<open>products\<close> to the third assertion. \<open>not datasets\<close> holds for \<open>None\<close> and for an empty list,
  and then \<open>datasets\<close> is a new empty list. The result is the exception, or the catalog and
  the reference to the datasets with which the loop starts.
\<close>

definition fsync_startup ::
  "'w fusion_fs \<Rightarrow> string list option \<Rightarrow> ref option \<Rightarrow> string option \<Rightarrow> string \<Rightarrow> heap \<Rightarrow> 'w
     \<Rightarrow> (error + string \<times> ref) \<times> heap \<times> 'w" where
  "fsync_startup fs_fusion products datasets catalog direction h w =
     (let catalog' = (case catalog of None \<Rightarrow> ''common''
                      | Some c \<Rightarrow> if c = [] then ''common'' else c);
          (datasets', h1) = (case datasets of None \<Rightarrow> alloc [] h
                             | Some a \<Rightarrow> if h ! a = [] then alloc [] h else (a, h));
          products' = (case products of None \<Rightarrow> [] | Some ps \<Rightarrow> ps)
      in if \<not> (length products' > 0 \<or> length (h1 ! datasets') > 0) then
           (Inl (AssertionError
              ''At least one list products or datasets should be non-empty.''), h1, w)
         else if direction \<notin> set [''upload'', ''download''] then
           (Inl (AssertionError ''The direction must be either upload or download.''), h1, w)
         else
           (case expand_products fs_fusion products' datasets' h1 w of
              (Inl e, h2, w2) \<Rightarrow> (Inl e, h2, w2)
            | (Inr u, h2, w2) \<Rightarrow>
                if \<not> length (h2 ! datasets') > 0 then
                  (Inl (AssertionError
                     ''The supplied products did not contain any datasets.''), h2, w2)
                else (Inr (catalog', datasets'), h2, w2)))"

text \<open>
  \<open>time.sleep\<close> and \<open>input\<close>. A \<open>KeyboardInterrupt\<close> arrives as the exception of the call
  during which the key is pressed.
\<close>

record 'w console =
  sleep :: "nat \<Rightarrow> 'w \<Rightarrow> (error + unit) \<times> 'w"
  input_line :: "string \<Rightarrow> 'w \<Rightarrow> string \<times> 'w"

text \<open>
  The baseline \<open>local_state\<close> starts as \<open>pd.DataFrame()\<close>, a frame without columns, which is
  \<open>None\<close> here: no scan equals it, since a scan has three columns. \<open>a.equals(b)\<close> compares
  labels, cells and dtypes.
\<close>

definition equals :: "frame \<Rightarrow> frame option \<Rightarrow> bool" where
  "equals df other = (other = Some df)"

text \<open>
  The body of the \<open>try\<close> of one cycle. It gives the baseline with which the next cycle
  starts, or the exception that left the body.
\<close>

definition cycle_body ::
  "'w fusion_fs \<Rightarrow> 'w local_fs \<Rightarrow> 'w utils \<Rightarrow> 'w console \<Rightarrow> string list \<Rightarrow> string \<Rightarrow> string
     \<Rightarrow> bool \<Rightarrow> string option \<Rightarrow> frame option \<Rightarrow> 'w \<Rightarrow> (error + frame option) \<times> 'w" where
  "cycle_body fs_fusion fs_local ut con datasets catalog direction flatten dataset_format
     local_state w =
     (case get_local_state fs_local ut datasets catalog dataset_format w of
        (Inl e, w1) \<Rightarrow> (Inl e, w1)
      | (Inr local_state_temp, w1) \<Rightarrow>
          if \<not> equals local_state_temp local_state then
            (case fusion_state fs_fusion datasets catalog flatten dataset_format w1 of
               (Inl e, w2) \<Rightarrow> (Inl e, w2)
             | (Inr fusion_df, w2) \<Rightarrow>
                 (case synchronize fs_fusion fs_local ut local_state_temp fusion_df direction w2 of
                    (Inl e, w3) \<Rightarrow> (Inl e, w3)
                  | (Inr res, w3) \<Rightarrow>
                      if length res = 0 \<or> list_all fst res
                      then (Inr (Some local_state_temp), w3)
                      else (Inr local_state, w3)))
          else
            (case sleep con 10 w1 of
               (Inl e, w2) \<Rightarrow> (Inl e, w2)
             | (Inr u, w2) \<Rightarrow> (Inr local_state, w2)))"

text \<open>
  One round of \<open>while True\<close>, with its two handlers: the new baseline, whether the loop
  is left, and the world. Only the answer \<open>exit\<close> to the prompt leaves the loop.
\<close>

definition sync_cycle ::
  "'w fusion_fs \<Rightarrow> 'w local_fs \<Rightarrow> 'w utils \<Rightarrow> 'w console \<Rightarrow> string list \<Rightarrow> string \<Rightarrow> string
     \<Rightarrow> bool \<Rightarrow> string option \<Rightarrow> frame option \<Rightarrow> 'w \<Rightarrow> (frame option \<times> bool) \<times> 'w" where
  "sync_cycle fs_fusion fs_local ut con datasets catalog direction flatten dataset_format
     local_state w =
     (case cycle_body fs_fusion fs_local ut con datasets catalog direction flatten
             dataset_format local_state w of
        (Inr local_state', w') \<Rightarrow> ((local_state', False), w')
      | (Inl KeyboardInterrupt, w') \<Rightarrow>
          (case input_line con ''Type exit to exit: '' w' of
             (answer, w'') \<Rightarrow> ((local_state, answer = ''exit''), w''))
      | (Inl e, w') \<Rightarrow> ((local_state, False), w'))"

text \<open>
  The loop runs until the operator leaves it, which may be never: \<open>fsync_loop n\<close> runs at
  most \<open>n\<close> rounds and gives \<open>None\<close> when the loop is still running after them.
\<close>

fun fsync_loop ::
  "nat \<Rightarrow> 'w fusion_fs \<Rightarrow> 'w local_fs \<Rightarrow> 'w utils \<Rightarrow> 'w console \<Rightarrow> string list \<Rightarrow> string
     \<Rightarrow> string \<Rightarrow> bool \<Rightarrow> string option \<Rightarrow> frame option \<Rightarrow> 'w \<Rightarrow> unit option \<times> 'w" where
  "fsync_loop 0 fs_fusion fs_local ut con datasets catalog direction flatten dataset_format
     local_state w = (None, w)"
| "fsync_loop (Suc n) fs_fusion fs_local ut con datasets catalog direction flatten
     dataset_format local_state w =
     (case sync_cycle fs_fusion fs_local ut con datasets catalog direction flatten
             dataset_format local_state w of
        ((local_state', leave), w') \<Rightarrow>
          if leave then (Some (), w')
          else fsync_loop n fs_fusion fs_local ut con datasets catalog direction flatten
                 dataset_format local_state' w')"

text \<open>
  \<open>fsync\<close>: the startup, then the loop. The result is \<open>Some (Inl e)\<close> when \<open>fsync\<close> raises
  \<open>e\<close>, \<open>Some (Inr ())\<close> when it returns, and \<open>None\<close> when it is still in its loop after \<open>n\<close>
  rounds. The arguments \<open>n_par\<close>, \<open>show_progress\<close>, \<open>log_level\<close> and \<open>log_path\<close> configure the
  worker pool, the progress bar and the log.
\<close>

definition fsync ::
  "nat \<Rightarrow> 'w fusion_fs \<Rightarrow> 'w local_fs \<Rightarrow> 'w utils \<Rightarrow> 'w console \<Rightarrow> string list option
     \<Rightarrow> ref option \<Rightarrow> string option \<Rightarrow> string \<Rightarrow> bool \<Rightarrow> string option \<Rightarrow> heap \<Rightarrow> 'w
     \<Rightarrow> (error + unit) option \<times> heap \<times> 'w" where
  "fsync n fs_fusion fs_local ut con products datasets catalog direction flatten
     dataset_format h w =
     (case fsync_startup fs_fusion products datasets catalog direction h w of
        (Inl e, h', w') \<Rightarrow> (Some (Inl e), h', w')
      | (Inr (catalog', datasets'), h', w') \<Rightarrow>
          (case fsync_loop n fs_fusion fs_local ut con (h' ! datasets') catalog' direction
                  flatten dataset_format None w' of
             (r, w'') \<Rightarrow> (map_option Inr r, h', w'')))"

text \<open>
  What an optional argument holds, for stating what \<open>not products\<close> and \<open>not datasets\<close>
  test: \<open>None\<close> holds nothing.
\<close>

definition supplied :: "string list option \<Rightarrow> string list" where
  "supplied xs = (case xs of None \<Rightarrow> [] | Some ys \<Rightarrow> ys)"

definition items :: "heap \<Rightarrow> ref option \<Rightarrow> string list" where
  "items h r = (case r of None \<Rightarrow> [] | Some a \<Rightarrow> h ! a)"

section \<open>Properties of the hash object and of the chunked reads\<close>

lemma absorb_append:
  "absorb st (bs @ cs) = (case absorb st bs of (st', r) \<Rightarrow> absorb st' (r @ cs))"
proof (induction st bs rule: absorb.induct)
  case (1 st bs)
  show ?case
  proof (cases "length bs < 64")
    case True
    then show ?thesis by (simp add: absorb.simps [of st bs])
  next
    case False
    then have big: "\<not> length (bs @ cs) < 64" by simp
    have "absorb st (bs @ cs) = absorb (compress st (take 64 bs)) (drop 64 bs @ cs)"
      using False big by (simp add: absorb.simps [of st "bs @ cs"])
    also have "\<dots> = (case absorb (compress st (take 64 bs)) (drop 64 bs) of
                        (st', r) \<Rightarrow> absorb st' (r @ cs))"
      using "1.IH" False by simp
    also have "absorb (compress st (take 64 bs)) (drop 64 bs) = absorb st bs"
      using False by (simp add: absorb.simps [of st bs])
    finally show ?thesis .
  qed
qed

lemma update_append: "update (update h a) b = update h (a @ b)"
proof -
  obtain st r where a: "absorb (chain h) (pending h @ a) = (st, r)"
    by (cases "absorb (chain h) (pending h @ a)")
  have "absorb (chain h) ((pending h @ a) @ b) = absorb st (r @ b)"
    by (simp only: absorb_append [of "chain h" "pending h @ a" b] a split)
  then show ?thesis
    by (simp add: update_def a split: prod.splits)
qed

lemma update_new_empty: "update md5_new [] = md5_new"
  by (simp add: update_def md5_new_def absorb.simps)

lemma foldl_update:
  "foldl update (update h a) chunks = update h (a @ concat chunks)"
proof (induction chunks arbitrary: a)
  case Nil
  show ?case by simp
next
  case (Cons c cs)
  have "foldl update (update h a) (c # cs) = foldl update (update h (a @ c)) cs"
    by (simp add: update_append)
  also have "\<dots> = update h ((a @ c) @ concat cs)" by (rule Cons.IH)
  finally show ?case by simp
qed

lemma hash_blocks_chunks:
  "hash_blocks n f h = (foldl update h (read_chunks n f), snd (hash_blocks n f h))"
proof (induction n f h rule: hash_blocks.induct)
  case (1 n f h)
  obtain chunk f' where r: "read n f = (chunk, f')" by (cases "read n f")
  show ?case
  proof (cases "chunk = []")
    case True
    with r show ?thesis
      by (simp add: hash_blocks.simps [of n f h] read_chunks.simps [of n f])
  next
    case False
    have "hash_blocks n f h = hash_blocks n f' (update h chunk)"
      using r False by (simp add: hash_blocks.simps [of n f h])
    moreover have "read_chunks n f = chunk # read_chunks n f'"
      using r False by (simp add: read_chunks.simps [of n f])
    moreover have "hash_blocks n f' (update h chunk) =
        (foldl update (update h chunk) (read_chunks n f'),
         snd (hash_blocks n f' (update h chunk)))"
      using "1.IH" [OF r [symmetric] False] .
    ultimately show ?thesis by simp
  qed
qed

lemma concat_read_chunks:
  "n \<noteq> 0 \<Longrightarrow> concat (read_chunks n f) = drop (pos f) (content f)"
proof (induction n f rule: read_chunks.induct)
  case (1 n f)
  obtain chunk f' where r: "read n f = (chunk, f')" by (cases "read n f")
  show ?case
  proof (cases "chunk = []")
    case True
    with r "1.prems" have "drop (pos f) (content f) = []"
      by (auto simp: read_def Let_def split: if_splits)
    with r True show ?thesis by (simp add: read_chunks.simps [of n f])
  next
    case False
    have ih: "concat (read_chunks n f') = drop (pos f') (content f')"
      using "1.IH" [OF r [symmetric] False "1.prems"] .
    have split: "chunk @ drop (pos f') (content f') = drop (pos f) (content f)"
    proof (cases "n < 0")
      case True
      with r show ?thesis by (auto simp: read_def Let_def)
    next
      case False
      with r have c: "chunk = take (nat n) (drop (pos f) (content f))"
        and p: "pos f' = pos f + length chunk" and ct: "content f' = content f"
        by (auto simp: read_def Let_def)
      have "drop (pos f') (content f') = drop (length chunk) (drop (pos f) (content f))"
        by (simp add: p ct add.commute)
      also have "\<dots> = drop (nat n) (drop (pos f) (content f))"
        by (simp add: c min_def)
      finally have "drop (pos f') (content f') = drop (nat n) (drop (pos f) (content f))" .
      then show ?thesis
        unfolding c by (simp only: append_take_drop_id)
    qed
    show ?thesis
      using r False ih split by (simp add: read_chunks.simps [of n f])
  qed
qed

lemma header_loop_chunks:
  "header_loop n f h hc lst =
     (lst @ map (\<lambda>k. hc(''Digest'' \<mapsto>
                ''md5='' @ b64encode (digest (foldl update h (take (Suc k) (read_chunks n f))))))
              [0..<length (read_chunks n f)],
      foldl update h (read_chunks n f),
      snd (snd (header_loop n f h hc lst)))"
proof (induction n f h hc lst rule: header_loop.induct)
  case (1 n f h hc lst)
  obtain chunk f' where r: "read n f = (chunk, f')" by (cases "read n f")
  show ?case
  proof (cases "chunk = []")
    case True
    with r show ?thesis
      by (simp add: header_loop.simps [of n f h hc lst] read_chunks.simps [of n f])
  next
    case False
    define h' where "h' = update h chunk"
    define hc' where "hc' = hc(''Digest'' \<mapsto> ''md5='' @ b64encode (digest h'))"
    define cs where "cs = read_chunks n f'"
    have step: "header_loop n f h hc lst = header_loop n f' h' hc' (lst @ [hc'])"
      using r False by (simp add: header_loop.simps [of n f h hc lst] h'_def hc'_def Let_def)
    have chunks: "read_chunks n f = chunk # cs"
      using r False by (simp add: read_chunks.simps [of n f] cs_def)
    have ih: "header_loop n f' h' hc' (lst @ [hc']) =
        ((lst @ [hc']) @ map (\<lambda>k. hc'(''Digest'' \<mapsto>
                ''md5='' @ b64encode (digest (foldl update h' (take (Suc k) cs)))))
              [0..<length cs],
         foldl update h' cs,
         snd (snd (header_loop n f' h' hc' (lst @ [hc']))))"
      using "1.IH" [OF r [symmetric] False h'_def hc'_def] by (simp only: cs_def)
    have upd: "\<And>x. hc'(''Digest'' \<mapsto> x) = hc(''Digest'' \<mapsto> x)"
      by (simp add: hc'_def)
    have idx: "[0..<length (chunk # cs)] = 0 # map Suc [0..<length cs]"
      by (metis length_Cons map_Suc_upt upt_conv_Cons zero_less_Suc)
    have lst_eq: "map (\<lambda>k. hc(''Digest'' \<mapsto>
                ''md5='' @ b64encode (digest (foldl update h (take (Suc k) (chunk # cs))))))
              [0..<length (chunk # cs)] =
          hc' # map (\<lambda>k. hc'(''Digest'' \<mapsto>
                ''md5='' @ b64encode (digest (foldl update h' (take (Suc k) cs)))))
              [0..<length cs]"
      unfolding idx by (simp add: upd h'_def hc'_def o_def)
    show ?thesis
      unfolding step chunks lst_eq
      by (subst ih) (simp add: h'_def)
  qed
qed

lemma foldl_update_new: "foldl update md5_new chunks = update md5_new (concat chunks)"
  using foldl_update [of md5_new "[]" chunks] by (simp add: update_new_empty)

lemma digest_chunks: "digest (foldl update md5_new chunks) = md5sum (concat chunks)"
  by (simp add: foldl_update_new md5sum_def)

lemma read_chunks_sizes:
  "0 < n \<Longrightarrow> i < length (read_chunks n f) \<Longrightarrow>
     length (read_chunks n f ! i) \<le> nat n \<and>
     (Suc i < length (read_chunks n f) \<longrightarrow> length (read_chunks n f ! i) = nat n)"
proof (induction n f arbitrary: i rule: read_chunks.induct)
  case (1 n f)
  obtain chunk f' where r: "read n f = (chunk, f')" by (cases "read n f")
  show ?case
  proof (cases "chunk = []")
    case True
    with r "1.prems" show ?thesis by (simp add: read_chunks.simps [of n f])
  next
    case False
    have cs: "read_chunks n f = chunk # read_chunks n f'"
      using r False by (simp add: read_chunks.simps [of n f])
    from r "1.prems"(1) have c: "chunk = take (nat n) (drop (pos f) (content f))"
      and p: "pos f' = pos f + length chunk" and ct: "content f' = content f"
      by (auto simp: read_def Let_def)
    show ?thesis
    proof (cases i)
      case 0
      have short: "length chunk \<le> nat n" by (simp add: c)
      have "read_chunks n f' \<noteq> [] \<Longrightarrow> length chunk = nat n"
      proof (rule ccontr)
        assume ne: "read_chunks n f' \<noteq> []" and "length chunk \<noteq> nat n"
        with short have "length chunk < nat n" by simp
        then have "length (drop (pos f) (content f)) < nat n" by (simp add: c)
        then have "drop (pos f') (content f') = []" by (simp add: p ct c)
        then have "fst (read n f') = []" by (simp add: read_def Let_def)
        then have "read_chunks n f' = []"
          by (cases "read n f'") (simp add: read_chunks.simps [of n f'])
        with ne show False by simp
      qed
      with 0 short show ?thesis by (auto simp: cs)
    next
      case (Suc j)
      with "1.prems" cs have j: "j < length (read_chunks n f')" by simp
      from "1.IH" [OF r [symmetric] False "1.prems"(1) j] Suc show ?thesis
        by (simp add: cs)
    qed
  qed
qed

lemma hash_blocks_digest:
  assumes "k \<noteq> 0"
  shows "digest (fst (hash_blocks k \<lparr>content = data, pos = 0\<rparr> md5_new)) = md5sum data"
proof -
  have "fst (hash_blocks k \<lparr>content = data, pos = 0\<rparr> md5_new) =
        foldl update md5_new (read_chunks k \<lparr>content = data, pos = 0\<rparr>)"
    by (subst hash_blocks_chunks) simp
  moreover have "concat (read_chunks k \<lparr>content = data, pos = 0\<rparr>) = data"
    using concat_read_chunks [OF assms, of "\<lparr>content = data, pos = 0\<rparr>"] by simp
  ultimately show ?thesis by (simp add: digest_chunks)
qed

lemma generate_md5_token_eq:
  assumes "fs p = Some data"
  shows "generate_md5_token p fs = Inr (b64encode (md5sum data))"
proof -
  have "digest (fst (hash_blocks 4096 \<lparr>content = data, pos = 0\<rparr> md5_new)) = md5sum data"
    by (rule hash_blocks_digest) simp
  with assms show ?thesis
    by (cases "hash_blocks 4096 \<lparr>content = data, pos = 0\<rparr> md5_new")
       (simp add: generate_md5_token_def)
qed

text \<open>
  Claim C7. For every file content the digest that \<open>_generate_md5_token\<close> returns is the
  base64 encoding of the MD5 of the whole content, and hashing the same content in blocks of
  any other size \<open>n\<close> (any \<open>n\<close> but 0, negative \<open>n\<close> reading everything at once) gives the
  same value.
\<close>

theorem generate_md5_token_whole_content:
  "(fs p = Some data \<longrightarrow> generate_md5_token p fs = Inr (b64encode (md5sum data))) \<and>
   (n \<noteq> 0 \<longrightarrow>
      b64encode (digest (fst (hash_blocks n \<lparr>content = data, pos = 0\<rparr> md5_new))) =
      b64encode (md5sum data))"
  by (simp add: generate_md5_token_eq hash_blocks_digest)

theorem generate_md5_token_whole_content_witness:
  "generate_md5_token ''common/d/f.csv''
      (\<lambda>p. if p = ''common/d/f.csv'' then Some [0x61, 0x62, 0x63] else None) =
     Inr (b64encode (md5sum [0x61, 0x62, 0x63])) \<and>
   b64encode (digest (fst (hash_blocks 2 \<lparr>content = [0x61, 0x62, 0x63], pos = 0\<rparr> md5_new))) =
     b64encode (md5sum [0x61, 0x62, 0x63])"
  using generate_md5_token_whole_content
    [of "\<lambda>p. if p = ''common/d/f.csv'' then Some [0x61, 0x62, 0x63] else None"
        "''common/d/f.csv''" "[0x61, 0x62, 0x63]" 2]
  by simp

lemma construct_headers_chunks:
  "fst (construct_headers f dt_iso u operation_id n) =
     (let chunks = read_chunks n f;
          hc = [''Content-Type'' \<mapsto> ''application/octet-stream'', ''Digest'' \<mapsto> '''']
      in ([''Content-Type'' \<mapsto> ''application/octet-stream'',
           ''x-jpmc-distribution-created-date'' \<mapsto> dt_iso,
           ''x-jpmc-distribution-from-date'' \<mapsto> dt_iso,
           ''x-jpmc-distribution-to-date'' \<mapsto> dt_iso,
           ''Digest'' \<mapsto> ''md5='' @ b64encode (md5sum (concat chunks))],
          map (\<lambda>k. hc(''Digest'' \<mapsto> ''md5='' @ b64encode (md5sum (concat (take (Suc k) chunks)))))
            [0..<length chunks]))"
  unfolding construct_headers_def Let_def
  by (subst header_loop_chunks) (simp add: digest_chunks)

text \<open>
  Claim C1. \<open>_construct_headers\<close> returns one header dictionary for each chunk read. The
  \<open>Digest\<close> of the dictionary of chunk \<open>i\<close> is \<open>md5=\<close> followed by the base64-encoded MD5 of
  the concatenation of the chunks 0 to \<open>i\<close>; the \<open>Digest\<close> of the finalize headers is that
  of all chunks, which is the whole payload when the chunk size is not 0, and the last
  chunk's \<open>Digest\<close> equals it. For a positive chunk size every chunk but the last has
  exactly that size.
\<close>

theorem construct_headers_cumulative_digest:
  "let file_local = \<lparr>content = data, pos = 0\<rparr>;
       chunks = read_chunks chunk_size file_local;
       headers = fst (fst (construct_headers file_local dt_iso u operation_id chunk_size));
       headers_chunk_lst =
         snd (fst (construct_headers file_local dt_iso u operation_id chunk_size))
   in length headers_chunk_lst = length chunks \<and>
      (\<forall>i < length chunks.
         (headers_chunk_lst ! i) ''Digest'' =
           Some (''md5='' @ b64encode (md5sum (concat (take (Suc i) chunks))))) \<and>
      headers ''Digest'' = Some (''md5='' @ b64encode (md5sum (concat chunks))) \<and>
      (chunks \<noteq> [] \<longrightarrow> (last headers_chunk_lst) ''Digest'' = headers ''Digest'') \<and>
      (chunk_size \<noteq> 0 \<longrightarrow> concat chunks = data) \<and>
      (0 < chunk_size \<longrightarrow>
         (\<forall>i < length chunks. length (chunks ! i) \<le> nat chunk_size \<and>
            (Suc i < length chunks \<longrightarrow> length (chunks ! i) = nat chunk_size)))"
proof -
  define f where "f = \<lparr>content = data, pos = 0\<rparr>"
  define chunks where "chunks = read_chunks chunk_size f"
  define lst where "lst = snd (fst (construct_headers f dt_iso u operation_id chunk_size))"
  define headers where
    "headers = fst (fst (construct_headers f dt_iso u operation_id chunk_size))"
  have len: "length lst = length chunks"
    by (simp add: lst_def construct_headers_chunks Let_def chunks_def)
  have nth: "(lst ! i) ''Digest'' =
      Some (''md5='' @ b64encode (md5sum (concat (take (Suc i) chunks))))"
    if "i < length chunks" for i
    using that by (simp add: lst_def construct_headers_chunks Let_def chunks_def)
  have whole: "headers ''Digest'' = Some (''md5='' @ b64encode (md5sum (concat chunks)))"
    by (simp add: headers_def construct_headers_chunks Let_def chunks_def)
  have final: "(last lst) ''Digest'' = headers ''Digest''" if "chunks \<noteq> []"
  proof -
    from that len have ne: "lst \<noteq> []" by auto
    have "last lst = lst ! (length chunks - 1)"
      using ne len by (simp add: last_conv_nth)
    moreover have "length chunks - 1 < length chunks" using that by simp
    moreover have "take (Suc (length chunks - 1)) chunks = chunks" using that by simp
    ultimately show ?thesis using nth [of "length chunks - 1"] whole by simp
  qed
  have all: "concat chunks = data" if "chunk_size \<noteq> 0"
    using concat_read_chunks [OF that, of f] by (simp add: chunks_def f_def)
  have sizes: "length (chunks ! i) \<le> nat chunk_size \<and>
      (Suc i < length chunks \<longrightarrow> length (chunks ! i) = nat chunk_size)"
    if "0 < chunk_size" "i < length chunks" for i
    using read_chunks_sizes [OF that(1), of i f] that(2) by (simp add: chunks_def)
  from len nth whole final all sizes show ?thesis
    unfolding Let_def f_def [symmetric] chunks_def [symmetric] lst_def [symmetric]
      headers_def [symmetric]
    by blast
qed

theorem construct_headers_cumulative_digest_witness:
  "(snd (fst (construct_headers \<lparr>content = [0x61, 0x62, 0x63], pos = 0\<rparr>
        ''2023-01-31'' () () 2)) ! 0) ''Digest'' =
     Some (''md5='' @ b64encode (md5sum [0x61, 0x62])) \<and>
   (snd (fst (construct_headers \<lparr>content = [0x61, 0x62, 0x63], pos = 0\<rparr>
        ''2023-01-31'' () () 2)) ! 1) ''Digest'' =
     Some (''md5='' @ b64encode (md5sum [0x61, 0x62, 0x63])) \<and>
   fst (fst (construct_headers \<lparr>content = [0x61, 0x62, 0x63], pos = 0\<rparr>
        ''2023-01-31'' () () 2)) ''Digest'' =
     Some (''md5='' @ b64encode (md5sum [0x61, 0x62, 0x63]))"
proof -
  have r1: "read 2 \<lparr>content = [0x61, 0x62, 0x63], pos = 0\<rparr> =
      ([0x61, 0x62], \<lparr>content = [0x61, 0x62, 0x63], pos = 2\<rparr>)"
    by (simp add: read_def Let_def)
  have r2: "read 2 \<lparr>content = [0x61, 0x62, 0x63], pos = 2\<rparr> =
      ([0x63], \<lparr>content = [0x61, 0x62, 0x63], pos = 3\<rparr>)"
    by (simp add: read_def Let_def numeral_2_eq_2)
  have r3: "read 2 \<lparr>content = [0x61, 0x62, 0x63], pos = 3\<rparr> =
      ([], \<lparr>content = [0x61, 0x62, 0x63], pos = 3\<rparr>)"
    by (simp add: read_def Let_def)
  have chunks: "read_chunks 2 \<lparr>content = [0x61, 0x62, 0x63], pos = 0\<rparr> =
      [[0x61, 0x62], [0x63]]"
    by (subst read_chunks.simps, simp only: r1 split, simp,
        subst read_chunks.simps, simp only: r2 split, simp,
        subst read_chunks.simps, simp only: r3 split, simp)
  have two: "(\<forall>i < 2. P i) \<longleftrightarrow> P 0 \<and> P (1::nat)" for P
    by (auto simp: less_2_cases_iff)
  from construct_headers_cumulative_digest
    [of "[0x61, 0x62, 0x63]" 2 "''2023-01-31''" "()" "()"]
  show ?thesis
    by (simp add: Let_def chunks two)
qed

section \<open>Properties of the upload of one file\<close>

lemma header_loop_empty:
  "header_loop n \<lparr>content = [], pos = 0\<rparr> h d l = (l, h, \<lparr>content = [], pos = 0\<rparr>)"
  by (subst header_loop.simps) (simp add: read_def)

lemma md5sum_empty: "digest md5_new = md5sum []"
  by (simp add: md5sum_def update_new_empty)

lemma construct_headers_empty:
  "construct_headers \<lparr>content = [], pos = 0\<rparr> dt_iso u operation_id n =
     (([''Content-Type'' \<mapsto> ''application/octet-stream'',
        ''x-jpmc-distribution-created-date'' \<mapsto> dt_iso,
        ''x-jpmc-distribution-from-date'' \<mapsto> dt_iso,
        ''x-jpmc-distribution-to-date'' \<mapsto> dt_iso,
        ''Digest'' \<mapsto> ''md5='' @ b64encode (md5sum [])], []),
      \<lparr>content = [], pos = 0\<rparr>)"
  by (simp add: construct_headers_def header_loop_empty seek_def md5sum_empty)

lemma put_file_multipart_raises:
  assumes "lower method = ''post'' \<or> lower method = ''put''"
  shows "\<exists>e. put_file s lpath rpath chunk_size method True headers chunk_headers_lst w =
           (Inl e, lpath,
            snd (session_request s
                   \<lparr>req_verb = ''post'', req_url = rpath @ ''/operations?operationType=upload'',
                    req_headers = None, req_data = NoData\<rparr> w))"
  using assms
  by (auto simp: put_file_def put_data_def Let_def split: prod.splits option.splits sum.splits)

text \<open>
  Claim C9. A file of no bytes, uploaded in parts, should still open the upload and close
  it, with no part in between. \<open>_construct_headers\<close> does its share: the list of part headers
  is empty and the headers of the whole file carry the digest of the empty byte string.
  \<open>_put_file\<close> opens the upload and then gathers \<open>put_data()\<close>, an async generator, which
  raises a \<open>TypeError\<close>: the request that closes the upload is never sent. The world of the
  session below is the list of the requests it has received.
\<close>

theorem put_file_empty_multipart:
  "snd (fst (construct_headers \<lparr>content = [], pos = 0\<rparr> ''2024-01-31'' () () (5 * 2 ^ 20))) = [] \<and>
   fst (fst (construct_headers \<lparr>content = [], pos = 0\<rparr> ''2024-01-31'' () () (5 * 2 ^ 20)))
     ''Digest'' = Some (''md5='' @ b64encode (md5sum [])) \<and>
   put_file
     \<lparr>session_request = (\<lambda>req (log :: request list). (''op-1'', log @ [req])),
      raise_not_found_for_status = (\<lambda>resp rpath. None),
      operation_id_of = (\<lambda>resp. Inr resp)\<rparr>
     \<lparr>content = [], pos = 0\<rparr> ''https://fusion/d1'' (Some (5 * 2 ^ 20)) ''post'' True
     (fst (fst (construct_headers \<lparr>content = [], pos = 0\<rparr> ''2024-01-31'' () () (5 * 2 ^ 20))))
     (snd (fst (construct_headers \<lparr>content = [], pos = 0\<rparr> ''2024-01-31'' () () (5 * 2 ^ 20))))
     []
   = (Inl (TypeError ''An asyncio.Future, a coroutine or an awaitable is required''),
      \<lparr>content = [], pos = 0\<rparr>,
      [\<lparr>req_verb = ''post'', req_url = ''https://fusion/d1/operations?operationType=upload'',
        req_headers = None, req_data = NoData\<rparr>])"
  by (simp add: construct_headers_empty put_file_def put_data_def lower_def)

section \<open>Properties of the reconciliation join\<close>



lemma join_fields [simp]:
  "md5_local (left_only l) = row.md5 l" "md5_fusion (left_only l) = None"
  "join_row.url (left_only l) = row.url l"
  "md5_local (right_only r) = None" "md5_fusion (right_only r) = row.md5 r"
  "join_row.url (right_only r) = row.url r"
  "md5_local (both l r) = row.md5 l" "md5_fusion (both l r) = row.md5 r"
  "join_row.url (both l r) = row.url l"
  "path_fusion (right_only r) = row.path r" "path_fusion (both l r) = row.path r"
  "path_local (left_only l) = row.path l" "path_local (both l r) = row.path l"
  by (simp_all add: left_only_def right_only_def both_def)

lemma ne_missing [simp]: "ne a None" "ne None b"
  by (simp_all add: ne_def split: option.splits)

lemma ne_present [simp]: "ne (Some x) (Some y) \<longleftrightarrow> x \<noteq> y"
  by (simp add: ne_def)













section \<open>Properties of the transfers\<close>

lemma download_length: "length (fst (download fs_fusion fs_local df w)) = length df"
proof (induction df arbitrary: w)
  case Nil
  show ?case by simp
next
  case (Cons row df)
  obtain r w1 where r: "download_files fs_fusion fs_local row w = (r, w1)"
    by (cases "download_files fs_fusion fs_local row w")
  obtain res w2 where res: "download fs_fusion fs_local df w1 = (res, w2)"
    by (cases "download fs_fusion fs_local df w1")
  from Cons.IH [of w1] r res show ?case by simp
qed

lemma upload_files_length: "length (fst (upload_files ut df w)) = length df"
proof (induction df arbitrary: w)
  case Nil
  show ?case by simp
next
  case (Cons row df)
  obtain r w1 where r: "upload_file ut row w = (r, w1)"
    by (cases "upload_file ut row w")
  obtain res w2 where res: "upload_files ut df w1 = (res, w2)"
    by (cases "upload_files ut df w1")
  from Cons.IH [of w1] r res show ?case by simp
qed

lemma download_files_outcome:
  "fst (download_files fs_fusion fs_local row w) =
     (case fst (fusion_get fs_fusion (join_row.url row) (path_fusion row)
                  (if \<not> local_exists fs_local (path_fusion row) w
                   then snd (local_mkdir_parent fs_local (path_fusion row) w) else w)) of
        None \<Rightarrow> (True, path_fusion row, None)
      | Some msg \<Rightarrow> (False, path_fusion row, Some msg))"
  by (simp add: download_files_def Let_def split: prod.splits option.splits)

lemma download_nth:
  "j < length df \<Longrightarrow>
     \<exists>w'. fst (download fs_fusion fs_local df w) ! j = fst (download_files fs_fusion fs_local (df ! j) w')"
proof (induction df arbitrary: w j)
  case Nil
  then show ?case by simp
next
  case (Cons row df)
  obtain r w1 where r: "download_files fs_fusion fs_local row w = (r, w1)"
    by (cases "download_files fs_fusion fs_local row w")
  obtain res w2 where res: "download fs_fusion fs_local df w1 = (res, w2)"
    by (cases "download fs_fusion fs_local df w1")
  show ?case
  proof (cases j)
    case 0
    with r res show ?thesis by (auto intro: exI [of _ w])
  next
    case (Suc i)
    with Cons.prems have "i < length df" by simp
    from Cons.IH [OF this, of w1] obtain w' where
      "fst (download fs_fusion fs_local df w1) ! i = fst (download_files fs_fusion fs_local (df ! i) w')" by blast
    with r res Suc show ?thesis by auto
  qed
qed

text \<open>
  Claim C5. In a download batch in which the transfer of exactly one task raises, the
  batch still returns one outcome for each task: the outcome of that task is the failure
  with the message of the exception, and the outcome of every other task is a success.
  The fetch of task \<open>k\<close> raises whatever the world is when it runs, and no other fetch
  raises; that covers every order in which the tasks are served.
\<close>

theorem download_failure_isolated:
  assumes k: "k < length df"
    and fails: "\<forall>w. fst (fusion_get fs_fusion (join_row.url (df ! k)) (path_fusion (df ! k)) w) = Some msg"
    and others: "\<forall>j < length df. j \<noteq> k \<longrightarrow>
        (\<forall>w. fst (fusion_get fs_fusion (join_row.url (df ! j)) (path_fusion (df ! j)) w) = None)"
  shows "length (fst (download fs_fusion fs_local df w)) = length df \<and>
         fst (download fs_fusion fs_local df w) ! k = (False, path_fusion (df ! k), Some msg) \<and>
         (\<forall>j < length df. j \<noteq> k \<longrightarrow>
            fst (download fs_fusion fs_local df w) ! j = (True, path_fusion (df ! j), None))"
proof (intro conjI allI impI)
  show "length (fst (download fs_fusion fs_local df w)) = length df" by (rule download_length)
  from download_nth [OF k, of fs_fusion fs_local w] obtain w' where
    "fst (download fs_fusion fs_local df w) ! k = fst (download_files fs_fusion fs_local (df ! k) w')" by blast
  with fails show "fst (download fs_fusion fs_local df w) ! k = (False, path_fusion (df ! k), Some msg)"
    by (simp add: download_files_outcome)
next
  fix j assume j: "j < length df" "j \<noteq> k"
  from download_nth [OF j(1), of fs_fusion fs_local w] obtain w' where
    "fst (download fs_fusion fs_local df w) ! j = fst (download_files fs_fusion fs_local (df ! j) w')" by blast
  with others j show "fst (download fs_fusion fs_local df w) ! j = (True, path_fusion (df ! j), None)"
    by (simp add: download_files_outcome)
qed

theorem download_failure_isolated_witness:
  "fst (download
     \<lparr>fusion_get = (\<lambda>u p (w::nat). (if u = Some ''k2'' then Some ''timed out'' else None, Suc w)),
      product_resources = (\<lambda>p w. (Inr [], w)),
      fusion_state = (\<lambda>ds c f g w. (Inr \<lparr>frame_rows = [], col_dtype = Object\<rparr>, w))\<rparr>
     \<lparr>local_exists = (\<lambda>p w. False),
      local_mkdir = (\<lambda>d w. (None, w)),
      local_mkdir_parent = (\<lambda>p w. (Some ''exists'', w)),
      local_find = (\<lambda>d w. []),
      local_open = (\<lambda>w p. None)\<rparr>
     [\<lparr>path_local = None, url = Some ''k1'', md5_local = None,
       path_fusion = Some ''p1'', md5_fusion = Some ''X''\<rparr>,
      \<lparr>path_local = None, url = Some ''k2'', md5_local = None,
       path_fusion = Some ''p2'', md5_fusion = Some ''Y''\<rparr>,
      \<lparr>path_local = None, url = Some ''k3'', md5_local = None,
       path_fusion = Some ''p3'', md5_fusion = Some ''Z''\<rparr>] 0)
   = [(True, Some ''p1'', None), (False, Some ''p2'', Some ''timed out''),
      (True, Some ''p3'', None)]"
  (is "fst (download ?F ?L ?df 0) = _")
proof -
  have k: "1 < length ?df" by simp
  have fails: "\<forall>w. fst (fusion_get ?F (join_row.url (?df ! 1)) (path_fusion (?df ! 1)) w)
                 = Some ''timed out''" by simp
  have others: "\<forall>j < length ?df. j \<noteq> 1 \<longrightarrow>
      (\<forall>w. fst (fusion_get ?F (join_row.url (?df ! j)) (path_fusion (?df ! j)) w) = None)"
    by (simp add: less_Suc_eq nth_Cons')
  from download_failure_isolated [OF k fails others, of ?L 0]
  have len: "length (fst (download ?F ?L ?df 0)) = 3"
    and one: "fst (download ?F ?L ?df 0) ! 1 = (False, Some ''p2'', Some ''timed out'')"
    and rest: "\<forall>j < 3. j \<noteq> 1 \<longrightarrow>
                 fst (download ?F ?L ?df 0) ! j = (True, path_fusion (?df ! j), None)"
    by simp_all
  from rest have zero: "fst (download ?F ?L ?df 0) ! 0 = (True, Some ''p1'', None)"
    and two: "fst (download ?F ?L ?df 0) ! 2 = (True, Some ''p3'', None)"
    by simp_all
  show ?thesis
  proof (rule nth_equalityI)
    show "length (fst (download ?F ?L ?df 0)) =
          length [(True, Some ''p1'', None), (False, Some ''p2'', Some ''timed out''),
                  (True, Some ''p3'', None)]"
      using len by simp
  next
    fix i assume "i < length (fst (download ?F ?L ?df 0))"
    with len have "i = 0 \<or> i = 1 \<or> i = 2" by auto
    with zero one two
    show "fst (download ?F ?L ?df 0) ! i =
          [(True, Some ''p1'', None), (False, Some ''p2'', Some ''timed out''),
           (True, Some ''p3'', None)] ! i"
      by auto
  qed
qed

section \<open>Properties of the local scan\<close>

text \<open>
  Claim C3. A file whose relative path the validator rejects should not be in the
  inventory. In \<open>_get_local_state\<close> the files that pass are appended to the list of all the
  files found, so a rejected file stays: here the directory \<open>common/d1\<close> holds the one file
  \<open>notes.txt\<close>, the validator rejects it, and the inventory has its row.
\<close>

theorem get_local_state_keeps_rejected_file:
  "validate_file_names
     \<lparr>validate_file_names = (\<lambda>ps w. map (\<lambda>p. False) ps),
      path_to_url = (\<lambda>p. p),
      join_relpath = (\<lambda>d i. d @ ''/'' @ last_segment i),
      upload_file = (\<lambda>r w. ((True, path_local r, None), w)),
      argsort = (\<lambda>ks. sort_key (\<lambda>i. ks ! i) [0..<length ks])\<rparr>
     [''common/d1/notes.txt''] () = [False] \<and>
   fst (get_local_state
     \<lparr>local_exists = (\<lambda>p w. True),
      local_mkdir = (\<lambda>d w. (None, w)),
      local_mkdir_parent = (\<lambda>p w. (None, w)),
      local_find = (\<lambda>d w. [''/data/common/d1/notes.txt'']),
      local_open = (\<lambda>w p. if p = ''/data/common/d1/notes.txt'' then Some [] else None)\<rparr>
     \<lparr>validate_file_names = (\<lambda>ps w. map (\<lambda>p. False) ps),
      path_to_url = (\<lambda>p. p),
      join_relpath = (\<lambda>d i. d @ ''/'' @ last_segment i),
      upload_file = (\<lambda>r w. ((True, path_local r, None), w)),
      argsort = (\<lambda>ks. sort_key (\<lambda>i. ks ! i) [0..<length ks])\<rparr>
     [''d1''] ''common'' None ()) =
   Inr \<lparr>frame_rows = [(0, \<lparr>path = Some ''common/d1/notes.txt'',
                            url = Some ''/data/common/d1/notes.txt'',
                            md5 = Some (b64encode (md5sum []))\<rparr>)],
        col_dtype = Object\<rparr>"
  by (simp add: get_local_state_def generate_md5_token_eq data_frame_def cell_at_def
      sort_values_def drop_duplicates_def slice_from_def last_segment_def Let_def
      List.map_filter_simps)

section \<open>Properties of the synchronisation loop\<close>

lemma expand_products_lookups:
  assumes "d < length h"
    and "\<forall>p \<in> set ps. \<forall>w. fst (product_resources fs_fusion p w) = Inr (ids_of p)"
  shows "expand_products fs_fusion ps d h w =
           (Inr (), h[d := h ! d @ concat (map ids_of ps)],
            foldl (\<lambda>w p. snd (product_resources fs_fusion p w)) w ps)"
  using assms
proof (induction ps arbitrary: h w)
  case Nil
  then show ?case by simp
next
  case (Cons p ps)
  have "fst (product_resources fs_fusion p w) = Inr (ids_of p)"
    using Cons.prems(2) by simp
  then obtain w1 where p: "product_resources fs_fusion p w = (Inr (ids_of p), w1)"
    by (cases "product_resources fs_fusion p w") simp
  have len: "d < length (h[d := h ! d @ ids_of p])" using Cons.prems(1) by simp
  have rest: "\<forall>q \<in> set ps. \<forall>w. fst (product_resources fs_fusion q w) = Inr (ids_of q)"
    using Cons.prems(2) by simp
  from Cons.IH [OF len rest, of w1] p Cons.prems(1) show ?case by simp
qed

lemma sync_length:
  assumes "synchronize fs_fusion fs_local ut df_local df_fusion direction w = (Inr res, w')"
  shows "length res =
         length (if direction = ''upload''
                 then upload_plan (map snd (frame_rows df_local)) (map snd (frame_rows df_fusion))
                 else download_plan (map snd (frame_rows df_local))
                        (map snd (frame_rows df_fusion)))"
proof (cases "direction = ''upload''")
  case True
  with assms have "res = fst (upload_files ut
      (upload_plan (map snd (frame_rows df_local)) (map snd (frame_rows df_fusion))) w)"
    by (auto simp: synchronize_def upload_def split: prod.splits option.splits)
  with True show ?thesis by (simp add: upload_files_length)
next
  case False
  with assms have "res = fst (download fs_fusion fs_local
      (download_plan (map snd (frame_rows df_local)) (map snd (frame_rows df_fusion))) w)"
    by (auto simp: synchronize_def split: prod.splits option.splits if_splits)
  with False show ?thesis by (simp add: download_length)
qed

lemma sync_cycle_commit_rule:
  assumes scan: "get_local_state fs_local ut datasets catalog dataset_format w = (Inr fresh, w1)"
    and differs: "local_state \<noteq> Some fresh"
    and listing: "fusion_state fs_fusion datasets catalog flatten dataset_format w1 = (Inr remote, w2)"
  shows "fst (fst (sync_cycle fs_fusion fs_local ut con datasets catalog direction flatten
                     dataset_format local_state w)) =
         (case synchronize fs_fusion fs_local ut fresh remote direction w2 of
            (Inl e, w3) \<Rightarrow> local_state
          | (Inr res, w3) \<Rightarrow>
              if (if direction = ''upload''
                  then upload_plan (map snd (frame_rows fresh)) (map snd (frame_rows remote))
                  else download_plan (map snd (frame_rows fresh)) (map snd (frame_rows remote)))
                 = [] \<or> (\<forall>r \<in> set res. fst r)
              then Some fresh else local_state)"
proof (cases "synchronize fs_fusion fs_local ut fresh remote direction w2")
  case (Pair r w3)
  show ?thesis
  proof (cases r)
    case (Inl e)
    with Pair scan differs listing show ?thesis
      by (cases e) (simp_all add: sync_cycle_def cycle_body_def equals_def split: prod.splits)
  next
    case (Inr res)
    with Pair have sync: "synchronize fs_fusion fs_local ut fresh remote direction w2 = (Inr res, w3)"
      by simp
    have "(length res = 0) =
      ((if direction = ''upload''
        then upload_plan (map snd (frame_rows fresh)) (map snd (frame_rows remote))
        else download_plan (map snd (frame_rows fresh)) (map snd (frame_rows remote))) = [])"
      using sync_length [OF sync] by simp
    with sync scan differs listing show ?thesis
      by (simp add: sync_cycle_def cycle_body_def equals_def list_all_iff)
  qed
qed

lemma startup_refs:
  assumes "\<forall>a. datasets = Some a \<longrightarrow> a < length h"
  shows "(case datasets of None \<Rightarrow> alloc [] h
          | Some a \<Rightarrow> if h ! a = [] then alloc [] h else (a, h)) =
         (if items h datasets = [] then (length h, h @ [[]]) else (the datasets, h))"
  by (cases datasets) (simp_all add: items_def alloc_def)

text \<open>
  Claim C4. The baseline should advance when the plan is empty or every outcome succeeded.
  With no file in the local directory and no change recorded for the dataset there is
  nothing to transfer, and the plan of either direction is empty. The scan is then a frame
  without rows of dtype \<open>float64\<close> and the remote inventory one of dtype \<open>object\<close>; the merge of
  \<open>_synchronize\<close> raises a \<open>ValueError\<close> on the two key columns, the handler of \<open>fsync\<close> logs it,
  and the cycle ends with the baseline it started with, in both directions. When the remote
  frame without rows is of dtype \<open>float64\<close> too, as for a change without distributions, the
  same empty plan advances the baseline, and so does the empty plan of a file that is the
  same on both sides.
\<close>

theorem sync_cycle_nothing_to_transfer:
  "upload_plan [] [] = [] \<and> download_plan [] [] = [] \<and>
   sync_cycle
     \<lparr>fusion_get = (\<lambda>u p (w::nat). (None, Suc w)),
      product_resources = (\<lambda>p w. (Inr [], w)),
      fusion_state = (\<lambda>ds c f g w. (Inr \<lparr>frame_rows = [], col_dtype = Object\<rparr>, w))\<rparr>
     \<lparr>local_exists = (\<lambda>p w. True),
      local_mkdir = (\<lambda>d w. (None, w)),
      local_mkdir_parent = (\<lambda>p w. (None, w)),
      local_find = (\<lambda>d w. []),
      local_open = (\<lambda>w p. None)\<rparr>
     \<lparr>validate_file_names = (\<lambda>ps w. map (\<lambda>p. True) ps),
      path_to_url = (\<lambda>p. p),
      join_relpath = (\<lambda>d i. i),
      upload_file = (\<lambda>r w. ((True, path_local r, None), w)),
      argsort = (\<lambda>ks. sort_key (\<lambda>i. ks ! i) [0..<length ks])\<rparr>
     \<lparr>sleep = (\<lambda>n w. (Inr (), w)), input_line = (\<lambda>s w. (''exit'', w))\<rparr>
     [''d1''] ''common'' ''upload'' False None None 0
   = ((None, False), 0) \<and>
   sync_cycle
     \<lparr>fusion_get = (\<lambda>u p (w::nat). (None, Suc w)),
      product_resources = (\<lambda>p w. (Inr [], w)),
      fusion_state = (\<lambda>ds c f g w. (Inr \<lparr>frame_rows = [], col_dtype = Object\<rparr>, w))\<rparr>
     \<lparr>local_exists = (\<lambda>p w. True),
      local_mkdir = (\<lambda>d w. (None, w)),
      local_mkdir_parent = (\<lambda>p w. (None, w)),
      local_find = (\<lambda>d w. []),
      local_open = (\<lambda>w p. None)\<rparr>
     \<lparr>validate_file_names = (\<lambda>ps w. map (\<lambda>p. True) ps),
      path_to_url = (\<lambda>p. p),
      join_relpath = (\<lambda>d i. i),
      upload_file = (\<lambda>r w. ((True, path_local r, None), w)),
      argsort = (\<lambda>ks. sort_key (\<lambda>i. ks ! i) [0..<length ks])\<rparr>
     \<lparr>sleep = (\<lambda>n w. (Inr (), w)), input_line = (\<lambda>s w. (''exit'', w))\<rparr>
     [''d1''] ''common'' ''download'' False None None 0
   = ((None, False), 0) \<and>
   sync_cycle
     \<lparr>fusion_get = (\<lambda>u p (w::nat). (None, Suc w)),
      product_resources = (\<lambda>p w. (Inr [], w)),
      fusion_state = (\<lambda>ds c f g w. (Inr \<lparr>frame_rows = [], col_dtype = Float64\<rparr>, w))\<rparr>
     \<lparr>local_exists = (\<lambda>p w. True),
      local_mkdir = (\<lambda>d w. (None, w)),
      local_mkdir_parent = (\<lambda>p w. (None, w)),
      local_find = (\<lambda>d w. []),
      local_open = (\<lambda>w p. None)\<rparr>
     \<lparr>validate_file_names = (\<lambda>ps w. map (\<lambda>p. True) ps),
      path_to_url = (\<lambda>p. p),
      join_relpath = (\<lambda>d i. i),
      upload_file = (\<lambda>r w. ((True, path_local r, None), w)),
      argsort = (\<lambda>ks. sort_key (\<lambda>i. ks ! i) [0..<length ks])\<rparr>
     \<lparr>sleep = (\<lambda>n w. (Inr (), w)), input_line = (\<lambda>s w. (''exit'', w))\<rparr>
     [''d1''] ''common'' ''download'' False None None 0
   = ((Some \<lparr>frame_rows = [], col_dtype = Float64\<rparr>, False), 0) \<and>
   sync_cycle
     \<lparr>fusion_get = (\<lambda>u p (w::nat). (None, Suc w)),
      product_resources = (\<lambda>p w. (Inr [], w)),
      fusion_state = (\<lambda>ds c f g w.
        (Inr \<lparr>frame_rows = [(0, \<lparr>path = Some ''common/d1/a.csv'',
                                    url = Some ''common/d1/a.csv'',
                                    md5 = Some (b64encode (md5sum []))\<rparr>)],
              col_dtype = Object\<rparr>, w))\<rparr>
     \<lparr>local_exists = (\<lambda>p w. True),
      local_mkdir = (\<lambda>d w. (None, w)),
      local_mkdir_parent = (\<lambda>p w. (None, w)),
      local_find = (\<lambda>d w. [''common/d1/a.csv'']),
      local_open = (\<lambda>w p. if p = ''common/d1/a.csv'' then Some [] else None)\<rparr>
     \<lparr>validate_file_names = (\<lambda>ps w. map (\<lambda>p. True) ps),
      path_to_url = (\<lambda>p. p),
      join_relpath = (\<lambda>d i. i),
      upload_file = (\<lambda>r w. ((True, path_local r, None), w)),
      argsort = (\<lambda>ks. sort_key (\<lambda>i. ks ! i) [0..<length ks])\<rparr>
     \<lparr>sleep = (\<lambda>n w. (Inr (), w)), input_line = (\<lambda>s w. (''exit'', w))\<rparr>
     [''d1''] ''common'' ''download'' False None None 0
   = ((Some \<lparr>frame_rows = [(0, \<lparr>path = Some ''common/d1/a.csv'',
                                  url = Some ''common/d1/a.csv'',
                                  md5 = Some (b64encode (md5sum []))\<rparr>)],
            col_dtype = Object\<rparr>, False), 0)"
  by (simp add: sync_cycle_def cycle_body_def get_local_state_def data_frame_def
      sort_values_def drop_duplicates_def equals_def synchronize_def merge_keys_error_def
      dtype_name_def upload_plan_def download_plan_def merge_left_def merge_right_def
      both_def ne_def generate_md5_token_eq cell_at_def slice_from_def Let_def
      List.map_filter_simps)

text \<open>
  The third condition of claim C8 as it is written, that the supplied products expand to
  zero datasets, does not make \<open>fsync\<close> fail when the caller also supplies datasets: the
  product \<open>p\<close> has no resources, the assertion on the datasets holds through \<open>d1\<close>, and the
  startup ends with the loop about to run.
\<close>

theorem fsync_startup_counterexample:
  "fst (product_resources
     \<lparr>fusion_get = (\<lambda>u p (w::unit). (None, w)),
      product_resources = (\<lambda>p w. (Inr [], w)),
      fusion_state = (\<lambda>ds c f g w. (Inr \<lparr>frame_rows = [], col_dtype = Object\<rparr>, w))\<rparr> ''p'' ()) = Inr [] \<and>
   fsync_startup
     \<lparr>fusion_get = (\<lambda>u p (w::unit). (None, w)),
      product_resources = (\<lambda>p w. (Inr [], w)),
      fusion_state = (\<lambda>ds c f g w. (Inr \<lparr>frame_rows = [], col_dtype = Object\<rparr>, w))\<rparr>
     (Some [''p'']) (Some 0) None ''upload'' [[''d1'']] ()
   = (Inr (''common'', 0), [[''d1'']], ())"
  by (simp add: fsync_startup_def)

text \<open>
  Claim C8, amended. \<open>fsync\<close> raises an \<open>AssertionError\<close> before its loop, whatever the number
  of rounds allowed, when no products and no datasets are supplied, or when the direction
  is neither \<open>upload\<close> nor \<open>download\<close>, or when no datasets are supplied and every supplied
  product expands to zero datasets. In the first two cases the world is untouched; in the
  third the product lookups are all that happened to it. A new empty list stands for the
  missing datasets.
\<close>

theorem fsync_startup_failures:
  assumes "\<forall>a. datasets = Some a \<longrightarrow> a < length h"
  shows
   "(supplied products = [] \<and> items h datasets = [] \<longrightarrow>
       fsync n fs_fusion fs_local ut con products datasets catalog direction flatten
         dataset_format h w =
       (Some (Inl (AssertionError
          ''At least one list products or datasets should be non-empty.'')), h @ [[]], w)) \<and>
    (\<not> (supplied products = [] \<and> items h datasets = []) \<and>
     direction \<noteq> ''upload'' \<and> direction \<noteq> ''download'' \<longrightarrow>
       fsync n fs_fusion fs_local ut con products datasets catalog direction flatten
         dataset_format h w =
       (Some (Inl (AssertionError ''The direction must be either upload or download.'')),
        if items h datasets = [] then h @ [[]] else h, w)) \<and>
    (supplied products \<noteq> [] \<and> items h datasets = [] \<and>
     (direction = ''upload'' \<or> direction = ''download'') \<and>
     (\<forall>p \<in> set (supplied products). \<forall>w. fst (product_resources fs_fusion p w) = Inr []) \<longrightarrow>
       fsync n fs_fusion fs_local ut con products datasets catalog direction flatten
         dataset_format h w =
       (Some (Inl (AssertionError ''The supplied products did not contain any datasets.'')),
        h @ [[]],
        foldl (\<lambda>w p. snd (product_resources fs_fusion p w)) w (supplied products)))"
proof -
  let ?ps = "case products of None \<Rightarrow> [] | Some ps \<Rightarrow> ps"
  have ps: "?ps = supplied products" by (simp add: supplied_def)
  have refs: "(case datasets of None \<Rightarrow> alloc [] h
          | Some a \<Rightarrow> if h ! a = [] then alloc [] h else (a, h)) =
         (if items h datasets = [] then (length h, h @ [[]]) else (the datasets, h))"
    by (rule startup_refs [OF assms])
  have nonempty: "h ! the datasets \<noteq> []" if "items h datasets \<noteq> []"
    using that by (cases datasets) (simp_all add: items_def)
  have a: "fsync n fs_fusion fs_local ut con products datasets catalog direction flatten
         dataset_format h w =
       (Some (Inl (AssertionError
          ''At least one list products or datasets should be non-empty.'')), h @ [[]], w)"
    if "supplied products = []" "items h datasets = []"
    using that by (simp add: fsync_def fsync_startup_def refs ps)
  have b: "fsync n fs_fusion fs_local ut con products datasets catalog direction flatten
         dataset_format h w =
       (Some (Inl (AssertionError ''The direction must be either upload or download.'')),
        if items h datasets = [] then h @ [[]] else h, w)"
    if "\<not> (supplied products = [] \<and> items h datasets = [])"
       "direction \<noteq> ''upload''" "direction \<noteq> ''download''"
    using that nonempty by (auto simp: fsync_def fsync_startup_def refs ps)
  have c: "fsync n fs_fusion fs_local ut con products datasets catalog direction flatten
         dataset_format h w =
       (Some (Inl (AssertionError ''The supplied products did not contain any datasets.'')),
        h @ [[]],
        foldl (\<lambda>w p. snd (product_resources fs_fusion p w)) w (supplied products))"
    if "supplied products \<noteq> []" "items h datasets = []"
       "direction = ''upload'' \<or> direction = ''download''"
       "\<forall>p \<in> set (supplied products). \<forall>w. fst (product_resources fs_fusion p w) = Inr []"
  proof -
    have "length h < length (h @ [[]])" by simp
    from expand_products_lookups [OF this, of "supplied products" fs_fusion "\<lambda>p. []" w] that(4)
    have "expand_products fs_fusion (supplied products) (length h) (h @ [[]]) w =
          (Inr (), h @ [[]],
           foldl (\<lambda>w p. snd (product_resources fs_fusion p w)) w (supplied products))"
      by simp
    with that(1,2,3) show ?thesis
      by (auto simp: fsync_def fsync_startup_def refs ps)
  qed
  from a b c show ?thesis by blast
qed

theorem fsync_startup_failures_witness:
  "fsync 3
     \<lparr>fusion_get = (\<lambda>u p (w::nat). (None, w)),
      product_resources = (\<lambda>p w. (Inr [], Suc w)),
      fusion_state = (\<lambda>ds c f g w. (Inr \<lparr>frame_rows = [], col_dtype = Object\<rparr>, w))\<rparr>
     \<lparr>local_exists = (\<lambda>p w. True),
      local_mkdir = (\<lambda>d w. (None, w)),
      local_mkdir_parent = (\<lambda>p w. (None, w)),
      local_find = (\<lambda>d w. []),
      local_open = (\<lambda>w p. None)\<rparr>
     \<lparr>validate_file_names = (\<lambda>ps w. map (\<lambda>p. True) ps),
      path_to_url = (\<lambda>p. p),
      join_relpath = (\<lambda>d i. i),
      upload_file = (\<lambda>r w. ((True, path_local r, None), w)),
      argsort = (\<lambda>ks. sort_key (\<lambda>i. ks ! i) [0..<length ks])\<rparr>
     \<lparr>sleep = (\<lambda>n w. (Inr (), w)), input_line = (\<lambda>s w. (''exit'', w))\<rparr>
     None None None ''upload'' False None [] 0
   = (Some (Inl (AssertionError
        ''At least one list products or datasets should be non-empty.'')), [[]], 0) \<and>
   fsync 3
     \<lparr>fusion_get = (\<lambda>u p (w::nat). (None, w)),
      product_resources = (\<lambda>p w. (Inr [], Suc w)),
      fusion_state = (\<lambda>ds c f g w. (Inr \<lparr>frame_rows = [], col_dtype = Object\<rparr>, w))\<rparr>
     \<lparr>local_exists = (\<lambda>p w. True),
      local_mkdir = (\<lambda>d w. (None, w)),
      local_mkdir_parent = (\<lambda>p w. (None, w)),
      local_find = (\<lambda>d w. []),
      local_open = (\<lambda>w p. None)\<rparr>
     \<lparr>validate_file_names = (\<lambda>ps w. map (\<lambda>p. True) ps),
      path_to_url = (\<lambda>p. p),
      join_relpath = (\<lambda>d i. i),
      upload_file = (\<lambda>r w. ((True, path_local r, None), w)),
      argsort = (\<lambda>ks. sort_key (\<lambda>i. ks ! i) [0..<length ks])\<rparr>
     \<lparr>sleep = (\<lambda>n w. (Inr (), w)), input_line = (\<lambda>s w. (''exit'', w))\<rparr>
     None (Some 0) None ''sideways'' False None [[''d1'']] 0
   = (Some (Inl (AssertionError ''The direction must be either upload or download.'')),
      [[''d1'']], 0) \<and>
   fsync 3
     \<lparr>fusion_get = (\<lambda>u p (w::nat). (None, w)),
      product_resources = (\<lambda>p w. (Inr [], Suc w)),
      fusion_state = (\<lambda>ds c f g w. (Inr \<lparr>frame_rows = [], col_dtype = Object\<rparr>, w))\<rparr>
     \<lparr>local_exists = (\<lambda>p w. True),
      local_mkdir = (\<lambda>d w. (None, w)),
      local_mkdir_parent = (\<lambda>p w. (None, w)),
      local_find = (\<lambda>d w. []),
      local_open = (\<lambda>w p. None)\<rparr>
     \<lparr>validate_file_names = (\<lambda>ps w. map (\<lambda>p. True) ps),
      path_to_url = (\<lambda>p. p),
      join_relpath = (\<lambda>d i. i),
      upload_file = (\<lambda>r w. ((True, path_local r, None), w)),
      argsort = (\<lambda>ks. sort_key (\<lambda>i. ks ! i) [0..<length ks])\<rparr>
     \<lparr>sleep = (\<lambda>n w. (Inr (), w)), input_line = (\<lambda>s w. (''exit'', w))\<rparr>
     (Some [''p1'', ''p2'']) None None ''upload'' False None [] 0
   = (Some (Inl (AssertionError ''The supplied products did not contain any datasets.'')),
      [[]], 2)"
  (is "fsync 3 ?F ?L ?U ?C None None None ''upload'' False None [] 0 = ?r1 \<and>
       fsync 3 ?F ?L ?U ?C None (Some 0) None ''sideways'' False None [[''d1'']] 0 = ?r2 \<and>
       fsync 3 ?F ?L ?U ?C (Some [''p1'', ''p2'']) None None ''upload'' False None [] 0 = ?r3")
proof -
  have none: "\<forall>a. (None :: ref option) = Some a \<longrightarrow> a < length ([] :: heap)" by simp
  have some: "\<forall>a. Some (0 :: ref) = Some a \<longrightarrow> a < length [[''d1'']]" by simp
  from fsync_startup_failures [OF none, of None 3 ?F ?L ?U ?C None "''upload''" False None 0]
  have "fsync 3 ?F ?L ?U ?C None None None ''upload'' False None [] 0 = ?r1"
    by (simp add: supplied_def items_def)
  moreover
  from fsync_startup_failures [OF some, of None 3 ?F ?L ?U ?C None "''sideways''" False None 0]
  have "fsync 3 ?F ?L ?U ?C None (Some 0) None ''sideways'' False None [[''d1'']] 0 = ?r2"
    by (simp add: supplied_def items_def)
  moreover
  from fsync_startup_failures [OF none, of "Some [''p1'', ''p2'']" 3 ?F ?L ?U ?C None
      "''upload''" False None 0]
  have "fsync 3 ?F ?L ?U ?C (Some [''p1'', ''p2'']) None None ''upload'' False None [] 0 = ?r3"
    by (simp add: supplied_def items_def)
  ultimately show ?thesis by blast
qed

text \<open>
  Claim C10. When the caller passes a non-empty list of datasets and a non-empty list of
  products, with a direction that passes the assertion and product lookups that succeed,
  the startup extends the caller's list object itself by the identifiers of every product,
  in the order of the products, and the loop starts with that object; no other object
  changes, and the heap stays so through the loop.
\<close>

theorem fsync_extends_callers_datasets:
  assumes a: "a < length h"
    and datasets: "h ! a \<noteq> []"
    and products: "ps \<noteq> []"
    and direction: "direction = ''upload'' \<or> direction = ''download''"
    and lookups: "\<forall>p \<in> set ps. \<forall>w. fst (product_resources fs_fusion p w) = Inr (ids_of p)"
  shows "fsync_startup fs_fusion (Some ps) (Some a) catalog direction h w =
           (Inr (case catalog of None \<Rightarrow> ''common''
                 | Some c \<Rightarrow> if c = [] then ''common'' else c, a),
            h[a := h ! a @ concat (map ids_of ps)],
            foldl (\<lambda>w p. snd (product_resources fs_fusion p w)) w ps) \<and>
         fst (snd (fsync n fs_fusion fs_local ut con (Some ps) (Some a) catalog direction
                     flatten dataset_format h w)) =
           h[a := h ! a @ concat (map ids_of ps)]"
proof -
  have start: "fsync_startup fs_fusion (Some ps) (Some a) catalog direction h w =
           (Inr (case catalog of None \<Rightarrow> ''common''
                 | Some c \<Rightarrow> if c = [] then ''common'' else c, a),
            h[a := h ! a @ concat (map ids_of ps)],
            foldl (\<lambda>w p. snd (product_resources fs_fusion p w)) w ps)"
    using a datasets products direction expand_products_lookups [OF a lookups, of w]
    by (auto simp: fsync_startup_def)
  then show ?thesis
    by (simp add: fsync_def split: prod.splits)
qed

theorem fsync_extends_callers_datasets_witness:
  "fsync_startup
     \<lparr>fusion_get = (\<lambda>u p (w::nat). (None, w)),
      product_resources = (\<lambda>p w. (Inr (if p = ''p1'' then [''d1'', ''d2''] else [''d3'']), Suc w)),
      fusion_state = (\<lambda>ds c f g w. (Inr \<lparr>frame_rows = [], col_dtype = Object\<rparr>, w))\<rparr>
     (Some [''p1'', ''p2'']) (Some 1) None ''download'' [[''x''], [''d0'']] 0
   = (Inr (''common'', 1), [[''x''], [''d0'', ''d1'', ''d2'', ''d3'']], 2)"
  (is "fsync_startup ?F _ _ _ _ ?h 0 = _")
proof -
  have a: "1 < length ?h" by simp
  have datasets: "?h ! 1 \<noteq> []" by simp
  have products: "[''p1'', ''p2''] \<noteq> []" by simp
  have direction: "''download'' = ''upload'' \<or> ''download'' = ''download''" by simp
  have lookups: "\<forall>p \<in> set [''p1'', ''p2'']. \<forall>w.
      fst (product_resources ?F p w) = Inr (if p = ''p1'' then [''d1'', ''d2''] else [''d3''])"
    by simp
  from fsync_extends_callers_datasets [OF a datasets products direction lookups, of None 0]
  show ?thesis by simp
qed

end
